theory Spec2Isabelle
  imports Complex_Main "HOL-Library.Char_ord"
begin

section \<open>Values of the host language\<close>

text \<open>
  The library works on dynamically typed JavaScript values. A number is an IEEE double in
  the source: the model carries a finite one as the rational it denotes (\<open>Fin\<close>), next to
  \<open>NaN\<close> and the two infinities, and every operation that makes a number rounds its exact
  result to the nearest double (\<open>round_double\<close> below). The negative zero is not told apart
  from zero, which no operation of the library does either. A \<open>Date\<close> carries its time value in milliseconds
  since the epoch, \<open>None\<close> being the invalid date. A dictionary is an association list in
  insertion order, read by its first entry for a key; its prototype is the one of every
  plain object, whose methods (\<open>toString\<close>, \<open>hasOwnProperty\<close>, ...) it inherits. \<open>JFun\<close>
  stands for such a built-in method, by its name (\<open>Object\<close> for the one found under
  \<open>constructor\<close>). Regular expression objects and other functions are not values of the
  model.
\<close>

datatype jsnum = Fin rat | NaN | PosInf | NegInf

datatype jsval =
    JUndefined
  | JNull
  | JBool bool
  | JNum jsnum
  | JStr string
  | JDate "int option"
  | JArr "jsval list"
  | JObj "(string \<times> jsval) list"
  | JFun string

type_synonym dict = "(string \<times> jsval) list"

datatype error = InvalidQuerySyntax | UnexpectedMatchString | RangeError | TypeError

text \<open>\<open>if (v)\<close>, \<open>!v\<close>, \<open>v || w\<close>: the truthiness of a value.\<close>

fun truthy :: "jsval \<Rightarrow> bool" where
  "truthy JUndefined = False"
| "truthy JNull = False"
| "truthy (JBool b) = b"
| "truthy (JNum (Fin n)) = (n \<noteq> 0)"
| "truthy (JNum NaN) = False"
| "truthy (JNum PosInf) = True"
| "truthy (JNum NegInf) = True"
| "truthy (JStr s) = (s \<noteq> [])"
| "truthy (JDate t) = True"
| "truthy (JArr xs) = True"
| "truthy (JObj kvs) = True"
| "truthy (JFun f) = True"

text \<open>The methods that every plain object inherits from its prototype.\<close>

definition prototypeMethods :: "string list" where
  "prototypeMethods =
     [''__defineGetter__'', ''__defineSetter__'', ''hasOwnProperty'', ''__lookupGetter__'',
      ''__lookupSetter__'', ''isPrototypeOf'', ''propertyIsEnumerable'', ''toString'',
      ''valueOf'', ''toLocaleString'']"

text \<open>What a plain object gives for a key that it does not own: an inherited method, the
  function \<open>Object\<close> for \<open>constructor\<close>, the prototype itself (which shows no entries) for
  \<open>__proto__\<close>, and \<open>undefined\<close> for any other key.\<close>

definition inherited :: "string \<Rightarrow> jsval" where
  "inherited k =
     (if k = ''constructor'' then JFun ''Object''
      else if k = ''__proto__'' then JObj []
      else if k \<in> set prototypeMethods then JFun k
      else JUndefined)"

text \<open>\<open>obj[key]\<close> on a dictionary: the own entry, or else what is inherited.\<close>

definition get_prop :: "dict \<Rightarrow> string \<Rightarrow> jsval" where
  "get_prop d k = (case map_of d k of None \<Rightarrow> inherited k | Some v \<Rightarrow> v)"

text \<open>\<open>Object.prototype.hasOwnProperty.call(obj, key)\<close> on a dictionary.\<close>

definition hasOwn :: "dict \<Rightarrow> string \<Rightarrow> bool" where
  "hasOwn d k = (map_of d k \<noteq> None)"

text \<open>
  \<open>obj.hasOwnProperty(key)\<close>, as a condition: the method is looked up on the object
  itself. When the object owns an entry \<open>hasOwnProperty\<close> that is no function the call
  raises a \<open>TypeError\<close>; when the entry is another built-in method, that one is called.
\<close>

definition callHasOwnProperty :: "dict \<Rightarrow> string \<Rightarrow> error + bool" where
  "callHasOwnProperty d k =
     (case get_prop d ''hasOwnProperty'' of
        JFun f \<Rightarrow>
          if f = ''hasOwnProperty'' \<or> f = ''propertyIsEnumerable'' then Inr (hasOwn d k)
          else if f = ''isPrototypeOf'' \<or> f = ''__lookupGetter__'' \<or> f = ''__lookupSetter__''
            then Inr False
          else if f = ''__defineGetter__'' \<or> f = ''__defineSetter__'' then Inl TypeError
          else Inr True
      | _ \<Rightarrow> Inl TypeError)"

text \<open>\<open>v[key]\<close> on any value; for a value that is no dictionary the model knows no
  properties (the source reads one this way only by the key \<open>type\<close>).\<close>

fun js_get :: "jsval \<Rightarrow> string \<Rightarrow> jsval" where
  "js_get (JObj d) k = get_prop d k"
| "js_get v k = JUndefined"

subsection \<open>Characters and strings\<close>

text \<open>Strings are lists of 8-bit characters; the case mappings act on the ASCII letters.\<close>

definition lower_letters :: string where
  "lower_letters = ''abcdefghijklmnopqrstuvwxyz''"

definition upper_letters :: string where
  "upper_letters = ''ABCDEFGHIJKLMNOPQRSTUVWXYZ''"

definition toLowerChar :: "char \<Rightarrow> char" where
  "toLowerChar c = (case map_of (zip upper_letters lower_letters) c of None \<Rightarrow> c | Some l \<Rightarrow> l)"

definition toUpperChar :: "char \<Rightarrow> char" where
  "toUpperChar c = (case map_of (zip lower_letters upper_letters) c of None \<Rightarrow> c | Some u \<Rightarrow> u)"

definition toLowerCase :: "string \<Rightarrow> string" where
  "toLowerCase s = map toLowerChar s"

text \<open>\<open>s < t\<close> on two strings: lexicographic on the character codes.\<close>

fun str_lt :: "string \<Rightarrow> string \<Rightarrow> bool" where
  "str_lt [] [] = False"
| "str_lt [] (y # ys) = True"
| "str_lt (x # xs) [] = False"
| "str_lt (x # xs) (y # ys) = (x < y \<or> (x = y \<and> str_lt xs ys))"

definition digit_chars :: string where
  "digit_chars = ''0123456789''"

fun index_of :: "char \<Rightarrow> string \<Rightarrow> nat option" where
  "index_of c [] = None"
| "index_of c (x # xs) = (if c = x then Some 0 else map_option Suc (index_of c xs))"

definition digit_val :: "char \<Rightarrow> nat option" where
  "digit_val c = index_of c digit_chars"

definition is_digit :: "char \<Rightarrow> bool" where
  "is_digit c = (digit_val c \<noteq> None)"

fun parse_digits :: "nat \<Rightarrow> string \<Rightarrow> nat option" where
  "parse_digits acc [] = Some acc"
| "parse_digits acc (c # cs) =
     (case digit_val c of None \<Rightarrow> None | Some d \<Rightarrow> parse_digits (10 * acc + d) cs)"

definition parse_nat :: "string \<Rightarrow> nat option" where
  "parse_nat s = (if s = [] then None else parse_digits 0 s)"

fun nat_digits :: "nat \<Rightarrow> string" where
  "nat_digits n =
     (if n < 10 then [digit_chars ! n] else nat_digits (n div 10) @ [digit_chars ! (n mod 10)])"

declare nat_digits.simps [simp del]

text \<open>A number printed in \<open>w\<close> digits at least, padded with zeros on the left.\<close>

definition pad :: "nat \<Rightarrow> nat \<Rightarrow> string" where
  "pad w n = replicate (w - length (nat_digits n)) (CHR ''0'') @ nat_digits n"

subsection \<open>Rounding to a double\<close>

text \<open>\<open>-x\<close> on a number.\<close>

fun num_neg :: "jsnum \<Rightarrow> jsnum" where
  "num_neg (Fin n) = Fin (- n)"
| "num_neg NaN = NaN"
| "num_neg PosInf = NegInf"
| "num_neg NegInf = PosInf"

text \<open>The number of binary digits of a positive integer.\<close>

function bit_length :: "int \<Rightarrow> int" where
  "bit_length n = (if n \<le> 0 then 0 else 1 + bit_length (n div 2))"
  by pat_completeness auto
termination by (relation "measure nat") auto

declare bit_length.simps [simp del]

definition pow2 :: "int \<Rightarrow> rat" where
  "pow2 e = (if 0 \<le> e then 2 ^ nat e else 1 / 2 ^ nat (- e))"

definition pow10 :: "int \<Rightarrow> rat" where
  "pow10 e = (if 0 \<le> e then 10 ^ nat e else 1 / 10 ^ nat (- e))"

text \<open>The binary exponent of a positive rational \<open>q\<close>: the \<open>e\<close> with \<open>2^e \<le> q < 2^(e+1)\<close>.\<close>

definition binary_exponent :: "rat \<Rightarrow> int" where
  "binary_exponent q =
     (let (n, d) = quotient_of q;
          e = bit_length n - bit_length d
      in if q < pow2 e then e - 1 else e)"

text \<open>The nearest integer, a tie going to the even one.\<close>

definition round_half_even :: "rat \<Rightarrow> int" where
  "round_half_even x =
     (let f = \<lfloor>x\<rfloor>; r = x - of_int f
      in if r < 1 / 2 then f else if 1 / 2 < r then f + 1 else if even f then f else f + 1)"

text \<open>
  The double nearest to a rational. A double has 53 significant binary digits and an
  exponent of \<open>-1022\<close> at least, below which the spacing stays that of the subnormal numbers;
  a result of \<open>2^1024\<close> or more is an infinity.
\<close>

definition round_positive :: "rat \<Rightarrow> jsnum" where
  "round_positive q =
     (let u = pow2 (max (binary_exponent q) (- 1022) - 52);
          r = of_int (round_half_even (q / u)) * u
      in if pow2 1024 \<le> r then PosInf else Fin r)"

definition round_double :: "rat \<Rightarrow> jsnum" where
  "round_double q =
     (if q = 0 then Fin 0
      else if 0 < q then round_positive q
      else num_neg (round_positive (- q)))"

subsection \<open>Conversions between numbers and strings\<close>

text \<open>The decimal digits of an integer that is not negative, and the value of a run of
  decimal digits.\<close>

function int_digits :: "int \<Rightarrow> string" where
  "int_digits n =
     (if n < 10 then [digit_chars ! nat n]
      else int_digits (n div 10) @ [digit_chars ! nat (n mod 10)])"
  by pat_completeness auto
termination by (relation "measure nat") auto

declare int_digits.simps [simp del]

definition digits_value :: "string \<Rightarrow> int" where
  "digits_value s =
     foldl (\<lambda>a c. 10 * a + (case digit_val c of None \<Rightarrow> 0 | Some d \<Rightarrow> int d)) 0 s"

text \<open>The white space that \<open>Number(s)\<close> drops around a numeric string.\<close>

definition is_space :: "char \<Rightarrow> bool" where
  "is_space c =
     (c \<in> set [CHR '' '', CHR 0x09, CHR 0x0A, CHR 0x0B, CHR 0x0C, CHR 0x0D, CHR 0xA0])"

definition trim :: "string \<Rightarrow> string" where
  "trim s = rev (dropWhile is_space (rev (dropWhile is_space s)))"

text \<open>A literal with a radix prefix, \<open>0x\<close>, \<open>0o\<close> or \<open>0b\<close> in either case, which takes no
  sign: its value when digits of the radix follow the prefix.\<close>

definition radix_value :: "int \<Rightarrow> string \<Rightarrow> string \<Rightarrow> int option" where
  "radix_value b ds r =
     (if r \<noteq> [] \<and> list_all (\<lambda>c. index_of c ds \<noteq> None) r
      then Some (foldl (\<lambda>a c. b * a + (case index_of c ds of
                                          None \<Rightarrow> 0
                                        | Some d \<Rightarrow> if d < 16 then int d else int d - 6)) 0 r)
      else None)"

definition is_radix_prefix :: "string \<Rightarrow> bool" where
  "is_radix_prefix t = (take 2 t \<in> set [''0x'', ''0X'', ''0o'', ''0O'', ''0b'', ''0B''])"

definition radix_literal :: "string \<Rightarrow> int option" where
  "radix_literal t =
     (let p = take 2 t; r = drop 2 t in
      if p = ''0x'' \<or> p = ''0X'' then radix_value 16 ''0123456789abcdefABCDEF'' r
      else if p = ''0o'' \<or> p = ''0O'' then radix_value 8 ''01234567'' r
      else if p = ''0b'' \<or> p = ''0B'' then radix_value 2 ''01'' r
      else None)"

text \<open>The exponent part at the end of a decimal literal: nothing, or \<open>e\<close> or \<open>E\<close>, an
  optional sign and digits.\<close>

definition exponent_part :: "string \<Rightarrow> int option" where
  "exponent_part r =
     (if r = [] then Some 0
      else if hd r = CHR ''e'' \<or> hd r = CHR ''E'' then
        (let r1 = tl r;
             sg = (r1 \<noteq> [] \<and> (hd r1 = CHR ''-'' \<or> hd r1 = CHR ''+''));
             ds = (if sg then tl r1 else r1)
         in if ds \<noteq> [] \<and> list_all is_digit ds
            then Some ((if sg \<and> hd r1 = CHR ''-'' then - 1 else 1) * digits_value ds)
            else None)
      else None)"

text \<open>The double nearest to \<open>m * 10^e\<close>, for \<open>m\<close> not negative. A decimal exponent above
  \<open>400\<close> is past the largest double and a number below \<open>10^-400\<close> rounds to zero, which
  the first branches say without computing the power.\<close>

definition scale_decimal :: "int \<Rightarrow> int \<Rightarrow> jsnum" where
  "scale_decimal m e =
     (if m = 0 then Fin 0
      else if 400 < e then PosInf
      else if e + int (length (int_digits m)) < - 400 then Fin 0
      else round_double (of_int m * pow10 e))"

text \<open>An unsigned decimal literal: digits, a point and digits with one of the two runs
  possibly empty, or digits alone, and then an optional exponent part.\<close>

definition decimal_literal :: "string \<Rightarrow> jsnum" where
  "decimal_literal t =
     (let ip = takeWhile is_digit t;
          r1 = dropWhile is_digit t;
          dot = (r1 \<noteq> [] \<and> hd r1 = CHR ''.'');
          fp = (if dot then takeWhile is_digit (tl r1) else []);
          r2 = (if dot then dropWhile is_digit (tl r1) else r1)
      in if ip = [] \<and> fp = [] then NaN
         else case exponent_part r2 of
                None \<Rightarrow> NaN
              | Some e \<Rightarrow> scale_decimal (digits_value (ip @ fp)) (e - int (length fp)))"

definition unsigned_to_num :: "string \<Rightarrow> jsnum" where
  "unsigned_to_num r = (if r = ''Infinity'' then PosInf else decimal_literal r)"

text \<open>
  \<open>Number(s)\<close> on a string: surrounding white space is dropped, the empty string is
  \<open>0\<close>, a literal with a radix prefix or an optionally signed decimal literal is the
  double nearest to its value, \<open>Infinity\<close> with an optional sign is itself and anything
  else is \<open>NaN\<close>.
\<close>

definition str_to_num :: "string \<Rightarrow> jsnum" where
  "str_to_num s =
     (let t = trim s in
      if t = [] then Fin 0
      else if is_radix_prefix t then
        (case radix_literal t of None \<Rightarrow> NaN | Some n \<Rightarrow> round_double (of_int n))
      else if hd t = CHR ''+'' then unsigned_to_num (tl t)
      else if hd t = CHR ''-'' then num_neg (unsigned_to_num (tl t))
      else unsigned_to_num t)"

text \<open>The decimal exponent of a positive rational \<open>q\<close>: the \<open>n\<close> with
  \<open>10^(n-1) \<le> q < 10^n\<close>.\<close>

definition decimal_exponent :: "rat \<Rightarrow> int" where
  "decimal_exponent q =
     (let (a, b) = quotient_of q;
          n = int (length (int_digits a)) - int (length (int_digits b))
      in if q < pow10 n then n else n + 1)"

text \<open>
  The digits that print a positive double \<open>x\<close>: the fewest significant digits \<open>k\<close> for
  which a decimal \<open>s * 10^(n-k)\<close> rounds to \<open>x\<close>, and of two such decimals the one nearer
  to \<open>x\<close>. The search starts at \<open>k\<close>, seventeen digits always suffice, and the result is
  \<open>s\<close> scaled to seventeen digits.
\<close>

function shortest :: "rat \<Rightarrow> int \<Rightarrow> nat \<Rightarrow> int" where
  "shortest x n k =
     (let u = pow10 (n - int k);
          lo = \<lfloor>x / u\<rfloor>;
          hi = lo + 1;
          okl = (round_double (of_int lo * u) = Fin x);
          okh = (round_double (of_int hi * u) = Fin x);
          dl = x - of_int lo * u;
          dh = of_int hi * u - x
      in if okl \<and> (\<not> okh \<or> dl < dh \<or> dl = dh \<and> even lo) then lo * 10 ^ (17 - k)
         else if okh then hi * 10 ^ (17 - k)
         else if 17 \<le> k then (if dl \<le> dh then lo else hi)
         else shortest x n (Suc k))"
  by pat_completeness auto
termination by (relation "measure (\<lambda>(x, n, k). 17 - k)") auto

declare shortest.simps [simp del]

text \<open>The digits laid out: plainly when the decimal exponent \<open>n\<close> is from \<open>-5\<close> to \<open>21\<close>,
  in exponent notation otherwise.\<close>

definition positive_to_string :: "rat \<Rightarrow> string" where
  "positive_to_string x =
     (let n0 = decimal_exponent x;
          all = int_digits (shortest x n0 1);
          n = n0 + int (length all) - 17;
          ds = rev (dropWhile (\<lambda>c. c = CHR ''0'') (rev all));
          k = int (length ds)
      in if k \<le> n \<and> n \<le> 21 then ds @ replicate (nat (n - k)) (CHR ''0'')
         else if 0 < n \<and> n \<le> 21 then take (nat n) ds @ ''.'' @ drop (nat n) ds
         else if - 6 < n \<and> n \<le> 0 then ''0.'' @ replicate (nat (- n)) (CHR ''0'') @ ds
         else (if k = 1 then ds else hd ds # ''.'' @ tl ds)
              @ ''e'' @ (if n - 1 < 0 then ''-'' else ''+'') @ int_digits \<bar>n - 1\<bar>)"

text \<open>\<open>String(x)\<close> on a number.\<close>

fun num_to_string :: "jsnum \<Rightarrow> string" where
  "num_to_string (Fin q) =
     (case round_double q of
        Fin x \<Rightarrow> if x = 0 then ''0''
                 else if x < 0 then CHR ''-'' # positive_to_string (- x)
                 else positive_to_string x
      | NaN \<Rightarrow> ''NaN''
      | PosInf \<Rightarrow> ''Infinity''
      | NegInf \<Rightarrow> ''-Infinity'')"
| "num_to_string NaN = ''NaN''"
| "num_to_string PosInf = ''Infinity''"
| "num_to_string NegInf = ''-Infinity''"

subsection \<open>Dates\<close>

text \<open>
  The proleptic Gregorian calendar in UTC: the day number of a civil date and back. The
  host's local time zone is taken to be UTC.
\<close>

definition days_from_civil :: "int \<Rightarrow> int \<Rightarrow> int \<Rightarrow> int" where
  "days_from_civil y m d =
     (let y1 = (if m \<le> 2 then y - 1 else y);
          era = y1 div 400;
          yoe = y1 - era * 400;
          doy = (153 * (if m > 2 then m - 3 else m + 9) + 2) div 5 + d - 1;
          doe = yoe * 365 + yoe div 4 - yoe div 100 + doy
      in era * 146097 + doe - 719468)"

definition civil_from_days :: "int \<Rightarrow> int \<times> int \<times> int" where
  "civil_from_days z =
     (let z1 = z + 719468;
          era = z1 div 146097;
          doe = z1 - era * 146097;
          yoe = (doe - doe div 1460 + doe div 36524 - doe div 146096) div 365;
          doy = doe - (365 * yoe + yoe div 4 - yoe div 100);
          mp = (5 * doy + 2) div 153;
          d = doy - (153 * mp + 2) div 5 + 1;
          m = (if mp < 10 then mp + 3 else mp - 9);
          y = yoe + era * 400
      in (if m \<le> 2 then y + 1 else y, m, d))"

definition ms_per_day :: int where
  "ms_per_day = 86400000"

text \<open>\<open>TimeClip\<close>: a time value further than \<open>8.64e15\<close> ms from the epoch is invalid.\<close>

definition timeClip :: "int \<Rightarrow> int option" where
  "timeClip t = (if \<bar>t\<bar> \<le> 8640000000000000 then Some t else None)"

definition year_string :: "int \<Rightarrow> string" where
  "year_string y =
     (if 0 \<le> y \<and> y \<le> 9999 then pad 4 (nat y)
      else if y < 0 then CHR ''-'' # pad 6 (nat (- y))
      else CHR ''+'' # pad 6 (nat y))"

definition iso_string :: "int \<Rightarrow> string" where
  "iso_string t =
     (let (y, m, d) = civil_from_days (t div ms_per_day);
          r = t mod ms_per_day
      in year_string y @ ''-'' @ pad 2 (nat m) @ ''-'' @ pad 2 (nat d) @ ''T''
         @ pad 2 (nat (r div 3600000)) @ '':'' @ pad 2 (nat (r mod 3600000 div 60000)) @ '':''
         @ pad 2 (nat (r mod 60000 div 1000)) @ ''.'' @ pad 3 (nat (r mod 1000)) @ ''Z'')"

text \<open>\<open>d.toISOString()\<close>: raises a \<open>RangeError\<close> on the invalid date.\<close>

definition toISOString :: "int option \<Rightarrow> error + string" where
  "toISOString t = (case t of None \<Rightarrow> Inl RangeError | Some ms \<Rightarrow> Inr (iso_string ms))"

text \<open>\<open>d.getTime()\<close>: \<open>NaN\<close> on the invalid date.\<close>

definition getTime :: "int option \<Rightarrow> jsnum" where
  "getTime t = (case t of None \<Rightarrow> NaN | Some ms \<Rightarrow> Fin (of_int ms))"

text \<open>Exactly \<open>n\<close> decimal digits at the head of a string, and the rest.\<close>

fun take_digits :: "nat \<Rightarrow> nat \<Rightarrow> string \<Rightarrow> (nat \<times> string) option" where
  "take_digits 0 acc s = Some (acc, s)"
| "take_digits (Suc n) acc [] = None"
| "take_digits (Suc n) acc (c # cs) =
     (case digit_val c of None \<Rightarrow> None | Some d \<Rightarrow> take_digits n (10 * acc + d) cs)"

text \<open>A given character at the head of a string, and the rest.\<close>

fun expect :: "char \<Rightarrow> string \<Rightarrow> string option" where
  "expect c [] = None"
| "expect c (x # xs) = (if x = c then Some xs else None)"

text \<open>The zone designator at the end: nothing (local time, UTC here), \<open>Z\<close> or \<open>\<plusminus>HH:mm\<close>;
  the result is the offset in minutes.\<close>

definition parse_zone :: "string \<Rightarrow> int option" where
  "parse_zone s =
     (if s = [] \<or> s = ''Z'' then Some 0
      else if hd s = CHR ''+'' \<or> hd s = CHR ''-'' then
        (case take_digits 2 0 (tl s) of None \<Rightarrow> None
         | Some (h, r1) \<Rightarrow>
           (case expect (CHR '':'') r1 of None \<Rightarrow> None
            | Some r2 \<Rightarrow>
              (case take_digits 2 0 r2 of None \<Rightarrow> None
               | Some (mi, r3) \<Rightarrow>
                 if r3 = [] \<and> h \<le> 23 \<and> mi \<le> 59
                 then Some ((if hd s = CHR ''-'' then - 1 else 1) * (60 * int h + int mi))
                 else None)))
      else None)"

text \<open>The fraction of a second: the first three digits count, later ones are dropped.\<close>

definition fraction_ms :: "string \<Rightarrow> nat" where
  "fraction_ms ds = (case parse_nat (take 3 (ds @ ''000'')) of None \<Rightarrow> 0 | Some n \<Rightarrow> n)"

text \<open>The seconds, the fraction and the zone after \<open>HH:mm\<close>: milliseconds and offset.\<close>

definition parse_seconds :: "string \<Rightarrow> (int \<times> int) option" where
  "parse_seconds s =
     (case expect (CHR '':'') s of
        None \<Rightarrow> map_option (\<lambda>z. (0, z)) (parse_zone s)
      | Some r1 \<Rightarrow>
        (case take_digits 2 0 r1 of None \<Rightarrow> None
         | Some (sec, r2) \<Rightarrow>
           if sec > 59 then None
           else (case expect (CHR ''.'') r2 of
                   None \<Rightarrow> map_option (\<lambda>z. (1000 * int sec, z)) (parse_zone r2)
                 | Some r3 \<Rightarrow>
                   let ds = takeWhile is_digit r3 in
                   if ds = [] then None
                   else map_option (\<lambda>z. (1000 * int sec + int (fraction_ms ds), z))
                          (parse_zone (dropWhile is_digit r3)))))"

text \<open>The time of day after the \<open>T\<close>: milliseconds into the day and offset in minutes.\<close>

definition parse_time :: "string \<Rightarrow> (int \<times> int) option" where
  "parse_time s =
     (case take_digits 2 0 s of None \<Rightarrow> None
      | Some (h, r1) \<Rightarrow>
        (case expect (CHR '':'') r1 of None \<Rightarrow> None
         | Some r2 \<Rightarrow>
           (case take_digits 2 0 r2 of None \<Rightarrow> None
            | Some (mi, r3) \<Rightarrow>
              (case parse_seconds r3 of None \<Rightarrow> None
               | Some (ms, z) \<Rightarrow>
                 if h \<le> 23 \<and> mi \<le> 59 \<or> h = 24 \<and> mi = 0 \<and> ms = 0
                 then Some (3600000 * int h + 60000 * int mi + ms, z)
                 else None))))"

text \<open>The year at the head of a date: four digits, or a sign and six digits (the
  expanded years, of which \<open>-000000\<close> is refused).\<close>

definition parse_year :: "string \<Rightarrow> (int \<times> string) option" where
  "parse_year s =
     (case expect (CHR ''+'') s of
        Some r \<Rightarrow> map_option (\<lambda>(y, r1). (int y, r1)) (take_digits 6 0 r)
      | None \<Rightarrow>
        (case expect (CHR ''-'') s of
           Some r \<Rightarrow>
             (case take_digits 6 0 r of None \<Rightarrow> None
              | Some (y, r1) \<Rightarrow> if y = 0 then None else Some (- int y, r1))
         | None \<Rightarrow> map_option (\<lambda>(y, r1). (int y, r1)) (take_digits 4 0 s)))"

text \<open>The month and the day after the year, each optional and 1 when left out.\<close>

definition parse_month_day :: "string \<Rightarrow> (nat \<times> nat \<times> string) option" where
  "parse_month_day r =
     (case expect (CHR ''-'') r of None \<Rightarrow> Some (1, 1, r)
      | Some r2 \<Rightarrow>
        (case take_digits 2 0 r2 of None \<Rightarrow> None
         | Some (m, r3) \<Rightarrow>
           (case expect (CHR ''-'') r3 of None \<Rightarrow> Some (m, 1, r3)
            | Some r4 \<Rightarrow>
              (case take_digits 2 0 r4 of None \<Rightarrow> None
               | Some (d, r5) \<Rightarrow> Some (m, d, r5)))))"

text \<open>
  \<open>Date.parse(s)\<close> on the date-time string format of the language: a date \<open>YYYY\<close>,
  \<open>YYYY-MM\<close> or \<open>YYYY-MM-DD\<close> (the year possibly expanded), alone or followed by \<open>THH:mm\<close>,
  \<open>THH:mm:ss\<close> or \<open>THH:mm:ss.sss\<close> and an optional zone. A month must be 1 to 12 and a day
  1 to 31; a day past the end of its month rolls over into the next month. The language
  leaves every other string to the engine, which may fall back on formats of its own: the
  model treats such a string as unparseable.
\<close>

definition date_parse :: "string \<Rightarrow> int option" where
  "date_parse s =
     (case parse_year s of None \<Rightarrow> None
      | Some (y, r1) \<Rightarrow>
        (case parse_month_day r1 of None \<Rightarrow> None
         | Some (m, d, r5) \<Rightarrow>
           if \<not> (1 \<le> m \<and> m \<le> 12 \<and> 1 \<le> d \<and> d \<le> 31) then None
           else if r5 = [] then
             timeClip (days_from_civil y (int m) (int d) * ms_per_day)
           else
             (case expect (CHR ''T'') r5 of None \<Rightarrow> None
              | Some r6 \<Rightarrow>
                (case parse_time r6 of None \<Rightarrow> None
                 | Some (ms, z) \<Rightarrow>
                   timeClip (days_from_civil y (int m) (int d) * ms_per_day
                             + ms - 60000 * z)))))"

definition weekday_names :: "string list" where
  "weekday_names = [''Thu'', ''Fri'', ''Sat'', ''Sun'', ''Mon'', ''Tue'', ''Wed'']"

definition month_names :: "string list" where
  "month_names = [''Jan'', ''Feb'', ''Mar'', ''Apr'', ''May'', ''Jun'',
                  ''Jul'', ''Aug'', ''Sep'', ''Oct'', ''Nov'', ''Dec'']"

text \<open>\<open>String(d)\<close> on a date, for a host whose time zone is UTC.\<close>

definition date_to_string :: "int option \<Rightarrow> string" where
  "date_to_string t =
     (case t of None \<Rightarrow> ''Invalid Date''
      | Some ms \<Rightarrow>
        let (y, m, d) = civil_from_days (ms div ms_per_day);
            r = ms mod ms_per_day
        in weekday_names ! nat ((ms div ms_per_day) mod 7) @ '' '' @ month_names ! nat (m - 1)
           @ '' '' @ pad 2 (nat d) @ '' ''
           @ (if y < 0 then CHR ''-'' # pad 6 (nat (- y)) else pad 4 (nat y)) @ '' ''
           @ pad 2 (nat (r div 3600000)) @ '':'' @ pad 2 (nat (r mod 3600000 div 60000)) @ '':''
           @ pad 2 (nat (r mod 60000 div 1000))
           @ '' GMT+0000 (Coordinated Universal Time)'')"

subsection \<open>Conversions of values\<close>

text \<open>
  \<open>String(v)\<close>, \<open>v.toString()\<close>, and the text of \<open>v\<close> in a template literal. An array joins
  its elements with commas, \<open>null\<close> and \<open>undefined\<close> elements giving the empty string.
\<close>

fun js_toString :: "jsval \<Rightarrow> string"
  and join_elems :: "jsval list \<Rightarrow> string" where
  "js_toString JUndefined = ''undefined''"
| "js_toString JNull = ''null''"
| "js_toString (JBool b) = (if b then ''true'' else ''false'')"
| "js_toString (JNum n) = num_to_string n"
| "js_toString (JStr s) = s"
| "js_toString (JDate t) = date_to_string t"
| "js_toString (JArr xs) = join_elems xs"
| "js_toString (JObj kvs) = ''[object Object]''"
| "js_toString (JFun f) = ''function '' @ f @ ''() { [native code] }''"
| "join_elems [] = []"
| "join_elems (x # xs) =
     (if x = JUndefined \<or> x = JNull then [] else js_toString x)
     @ (if xs = [] then [] else CHR '','' # join_elems xs)"

text \<open>\<open>Number(v)\<close> and the unary \<open>+v\<close>.\<close>

fun toNumber :: "jsval \<Rightarrow> jsnum" where
  "toNumber JUndefined = NaN"
| "toNumber JNull = Fin 0"
| "toNumber (JBool b) = (if b then Fin 1 else Fin 0)"
| "toNumber (JNum n) = n"
| "toNumber (JStr s) = str_to_num s"
| "toNumber (JDate t) = getTime t"
| "toNumber (JArr xs) = str_to_num (js_toString (JArr xs))"
| "toNumber (JObj kvs) = str_to_num (js_toString (JObj kvs))"
| "toNumber (JFun f) = str_to_num (js_toString (JFun f))"

text \<open>The integral part of a number, the fraction dropped.\<close>

definition truncate :: "rat \<Rightarrow> int" where
  "truncate q = (if 0 \<le> q then \<lfloor>q\<rfloor> else \<lceil>q\<rceil>)"

text \<open>\<open>new Date(v)\<close>: the time value of the date made from one argument.\<close>

fun newDate :: "jsval \<Rightarrow> int option" where
  "newDate (JDate t) = t"
| "newDate (JStr s) = date_parse s"
| "newDate (JArr xs) = date_parse (js_toString (JArr xs))"
| "newDate (JObj kvs) = date_parse (js_toString (JObj kvs))"
| "newDate (JFun f) = date_parse (js_toString (JFun f))"
| "newDate v = (case toNumber v of Fin n \<Rightarrow> timeClip (truncate n) | _ \<Rightarrow> None)"

subsection \<open>Comparison operators of the language\<close>

fun num_eq :: "jsnum \<Rightarrow> jsnum \<Rightarrow> bool" where
  "num_eq NaN y = False"
| "num_eq x NaN = False"
| "num_eq x y = (x = y)"

fun num_lt :: "jsnum \<Rightarrow> jsnum \<Rightarrow> bool" where
  "num_lt NaN y = False"
| "num_lt x NaN = False"
| "num_lt (Fin a) (Fin b) = (a < b)"
| "num_lt x PosInf = (x \<noteq> PosInf)"
| "num_lt NegInf y = (y \<noteq> NegInf)"
| "num_lt x y = False"

fun num_le :: "jsnum \<Rightarrow> jsnum \<Rightarrow> bool" where
  "num_le NaN y = False"
| "num_le x NaN = False"
| "num_le x y = (\<not> num_lt y x)"

text \<open>The primitive value an object is compared by: a date by its time value, an array or
  a dictionary by its string.\<close>

fun toPrimitive :: "jsval \<Rightarrow> jsval" where
  "toPrimitive (JDate t) = JNum (getTime t)"
| "toPrimitive (JArr xs) = JStr (js_toString (JArr xs))"
| "toPrimitive (JObj kvs) = JStr (js_toString (JObj kvs))"
| "toPrimitive (JFun f) = JStr (js_toString (JFun f))"
| "toPrimitive v = v"

text \<open>\<open>a < b\<close> and \<open>a <= b\<close>: two strings compare as strings, anything else as numbers.\<close>

definition js_lt :: "jsval \<Rightarrow> jsval \<Rightarrow> bool" where
  "js_lt a b =
     (case (toPrimitive a, toPrimitive b) of
        (JStr s, JStr t) \<Rightarrow> str_lt s t
      | (x, y) \<Rightarrow> num_lt (toNumber x) (toNumber y))"

definition js_le :: "jsval \<Rightarrow> jsval \<Rightarrow> bool" where
  "js_le a b =
     (case (toPrimitive a, toPrimitive b) of
        (JStr s, JStr t) \<Rightarrow> \<not> str_lt t s
      | (x, y) \<Rightarrow> num_le (toNumber x) (toNumber y))"

text \<open>
  \<open>a == b\<close> on numbers and strings, the only operands the comparator applies it to: a
  number and a string compare as numbers.
\<close>

fun loose_eq :: "jsval \<Rightarrow> jsval \<Rightarrow> bool" where
  "loose_eq (JNum m) (JNum n) = num_eq m n"
| "loose_eq (JStr s) (JStr t) = (s = t)"
| "loose_eq (JNum m) (JStr t) = num_eq m (str_to_num t)"
| "loose_eq (JStr s) (JNum n) = num_eq (str_to_num s) n"
| "loose_eq a b = False"

section \<open>The comparator\<close>

definition isString :: "jsval \<Rightarrow> bool" where
  "isString v = (case v of JStr s \<Rightarrow> True | _ \<Rightarrow> False)"

definition isNumber :: "jsval \<Rightarrow> bool" where
  "isNumber v = (case v of JNum n \<Rightarrow> True | _ \<Rightarrow> False)"

definition isDate :: "jsval \<Rightarrow> bool" where
  "isDate v = (case v of JDate t \<Rightarrow> True | _ \<Rightarrow> False)"

text \<open>A run of characters, each in its class, at the head of a string, and the rest.\<close>

fun shape :: "(char \<Rightarrow> bool) list \<Rightarrow> string \<Rightarrow> string option" where
  "shape [] s = Some s"
| "shape (p # ps) [] = None"
| "shape (p # ps) (c # cs) = (if p c then shape ps cs else None)"

definition one_of :: "string \<Rightarrow> char \<Rightarrow> bool" where
  "one_of cs c = (c \<in> set cs)"

definition iso_zone :: "string \<Rightarrow> bool" where
  "iso_zone s =
     (s = ''Z'' \<or>
      shape [one_of ''+-'', one_of ''012'', is_digit, one_of '':'', one_of ''012345'', is_digit] s
        = Some [])"

text \<open>
  Modelled from the spec: the constant \<open>X_ISO_DATE\<close>, which the filter and the sort module
  load from \<open>X_ISO_DATE.constant\<close>, a file that is not among the sources. The spec calls it
  an ISO-8601 date pattern: a string matches when it is a date \<open>YYYY-MM-DD\<close>, a \<open>T\<close>, a
  time \<open>HH:mm\<close>, \<open>HH:mm:ss\<close> or \<open>HH:mm:ss.s...\<close>, and a zone \<open>Z\<close> or \<open>\<plusminus>HH:mm\<close>.
\<close>

definition X_ISO_DATE :: "string \<Rightarrow> bool" where
  "X_ISO_DATE s =
     (case shape [is_digit, is_digit, is_digit, is_digit, one_of ''-'', one_of ''01'', is_digit,
                  one_of ''-'', one_of ''0123'', is_digit, one_of ''T'', one_of ''012'', is_digit,
                  one_of '':'', one_of ''012345'', is_digit] s of
        None \<Rightarrow> False
      | Some r \<Rightarrow>
          iso_zone r \<or>
          (case shape [one_of '':'', one_of ''012345'', is_digit] r of
             None \<Rightarrow> False
           | Some r2 \<Rightarrow>
               iso_zone r2 \<or>
               (case shape [one_of ''.'', is_digit] r2 of
                  None \<Rightarrow> False
                | Some r3 \<Rightarrow> iso_zone (dropWhile is_digit r3))))"

text \<open>\<open>normalizeComparison\<close>, first part: \<open>undefined\<close> and \<open>null\<close> become the empty
  string, and two strings are lower-cased.\<close>

definition nullish_to_empty :: "jsval \<Rightarrow> jsval" where
  "nullish_to_empty a = (if a = JUndefined \<or> a = JNull then JStr [] else a)"

definition lowered :: "jsval \<Rightarrow> jsval \<Rightarrow> jsval \<times> jsval" where
  "lowered a b =
     (case (nullish_to_empty a, nullish_to_empty b) of
        (JStr s, JStr t) \<Rightarrow> (JStr (toLowerCase s), JStr (toLowerCase t))
      | (a1, b1) \<Rightarrow> (a1, b1))"

text \<open>\<open>if (isDate(a)) {a = a.toISOString();}\<close>\<close>

definition date_to_iso :: "jsval \<Rightarrow> error + jsval" where
  "date_to_iso a =
     (case a of
        JDate t \<Rightarrow> (case toISOString t of Inl e \<Rightarrow> Inl e | Inr s \<Rightarrow> Inr (JStr s))
      | _ \<Rightarrow> Inr a)"

text \<open>\<open>if (!isNumber(a)) {a = a.toString();}\<close>\<close>

definition stringify_operand :: "jsval \<Rightarrow> jsval" where
  "stringify_operand a = (if isNumber a then a else JStr (js_toString a))"

text \<open>\<open>normalizeComparison\<close>, the part after the test for two dates: a single date
  becomes its ISO string, and everything but a number becomes a string.\<close>

definition stringified :: "jsval \<Rightarrow> jsval \<Rightarrow> error + (jsval \<times> jsval)" where
  "stringified a b =
     (case date_to_iso a of
        Inl e \<Rightarrow> Inl e
      | Inr a3 \<Rightarrow>
          (case date_to_iso b of
             Inl e \<Rightarrow> Inl e
           | Inr b3 \<Rightarrow> Inr (stringify_operand a3, stringify_operand b3)))"

text \<open>\<open>normalizeComparison\<close>, last part: two strings that both match \<open>X_ISO_DATE\<close> are
  parsed as dates and replaced by their time values.\<close>

definition date_like :: "jsval \<Rightarrow> jsval \<Rightarrow> jsval \<times> jsval" where
  "date_like a b =
     (case (a, b) of
        (JStr s, JStr t) \<Rightarrow>
          if X_ISO_DATE s \<and> X_ISO_DATE t
          then (JNum (getTime (date_parse s)), JNum (getTime (date_parse t)))
          else (a, b)
      | _ \<Rightarrow> (a, b))"

definition normalizeComparison :: "jsval \<Rightarrow> jsval \<Rightarrow> error + (jsval \<times> jsval)" where
  "normalizeComparison a b =
     (case lowered a b of
        (JDate s, JDate t) \<Rightarrow> Inr (JNum (getTime s), JNum (getTime t))
      | (a2, b2) \<Rightarrow>
          (case stringified a2 b2 of
             Inl e \<Rightarrow> Inl e
           | Inr (a4, b4) \<Rightarrow> Inr (date_like a4 b4)))"

text \<open>The table \<open>compare\<close>: its six entries.\<close>

definition compare_eq :: "jsval \<Rightarrow> jsval \<Rightarrow> error + bool" where
  "compare_eq a b =
     (case normalizeComparison a b of Inl e \<Rightarrow> Inl e | Inr (x, y) \<Rightarrow> Inr (loose_eq x y))"

definition compare_ne :: "jsval \<Rightarrow> jsval \<Rightarrow> error + bool" where
  "compare_ne a b =
     (case normalizeComparison a b of Inl e \<Rightarrow> Inl e | Inr (x, y) \<Rightarrow> Inr (\<not> loose_eq x y))"

definition compare_gt :: "jsval \<Rightarrow> jsval \<Rightarrow> error + bool" where
  "compare_gt a b =
     (case normalizeComparison a b of Inl e \<Rightarrow> Inl e | Inr (x, y) \<Rightarrow> Inr (js_lt y x))"

definition compare_ge :: "jsval \<Rightarrow> jsval \<Rightarrow> error + bool" where
  "compare_ge a b =
     (case normalizeComparison a b of Inl e \<Rightarrow> Inl e | Inr (x, y) \<Rightarrow> Inr (js_le y x))"

definition compare_lt :: "jsval \<Rightarrow> jsval \<Rightarrow> error + bool" where
  "compare_lt a b =
     (case normalizeComparison a b of Inl e \<Rightarrow> Inl e | Inr (x, y) \<Rightarrow> Inr (js_lt x y))"

definition compare_le :: "jsval \<Rightarrow> jsval \<Rightarrow> error + bool" where
  "compare_le a b =
     (case normalizeComparison a b of Inl e \<Rightarrow> Inl e | Inr (x, y) \<Rightarrow> Inr (js_le x y))"

section \<open>The pattern matcher\<close>

text \<open>\<open>matchString.replace(/%%%/g, '%')\<close>: from the left, every run of three percent signs
  becomes one.\<close>

fun unescape_percent :: "string \<Rightarrow> string" where
  "unescape_percent (a # b # c # cs) =
     (if a = CHR ''%'' \<and> b = CHR ''%'' \<and> c = CHR ''%''
      then CHR ''%'' # unescape_percent cs
      else a # unescape_percent (b # c # cs))"
| "unescape_percent cs = cs"

definition regex_specials :: string where
  "regex_specials = ''-[]/{}()*+?.'' @ [CHR 0x5C] @ ''^$|''"

text \<open>\<open>escapeRegExp\<close>: a backslash goes before every special character.\<close>

fun escapeRegExp :: "string \<Rightarrow> string" where
  "escapeRegExp [] = []"
| "escapeRegExp (c # cs) =
     (if c \<in> set regex_specials then CHR 0x5C # c # escapeRegExp cs else c # escapeRegExp cs)"

text \<open>\<open>matchString.replace(/([^%]*)%([^%]*)/g, '$1.*$2')\<close>: every percent sign becomes
  \<open>.*\<close>, the text around it stays.\<close>

fun percent_to_wildcard :: "string \<Rightarrow> string" where
  "percent_to_wildcard [] = []"
| "percent_to_wildcard (c # cs) =
     (if c = CHR ''%'' then ''.*'' @ percent_to_wildcard cs else c # percent_to_wildcard cs)"

text \<open>The source text of the regular expression that \<open>sqlLikeMatch\<close> builds from a string.\<close>

definition like_source :: "string \<Rightarrow> string" where
  "like_source p = ''^'' @ percent_to_wildcard (escapeRegExp (unescape_percent p)) @ ''$''"

text \<open>
  The regular expressions that arise: between \<open>^\<close> and \<open>$\<close>, a sequence of literal
  characters (a special one behind a backslash) and of \<open>.*\<close>. Any other source text is
  not read (\<open>None\<close>).
\<close>

datatype rx_item = Lit char | AnyStar

fun rx_body :: "string \<Rightarrow> rx_item list option" where
  "rx_body [] = None"
| "rx_body [c] = (if c = CHR ''$'' then Some [] else None)"
| "rx_body (c # d # cs) =
     (if c = CHR 0x5C then
        (if d \<in> set regex_specials then map_option ((#) (Lit d)) (rx_body cs) else None)
      else if c = CHR ''.'' then
        (if d = CHR ''*'' then map_option ((#) AnyStar) (rx_body cs) else None)
      else if c \<in> set regex_specials then None
      else map_option ((#) (Lit c)) (rx_body (d # cs)))"

definition rx_parse :: "string \<Rightarrow> rx_item list option" where
  "rx_parse src = (case src of [] \<Rightarrow> None | c # cs \<Rightarrow> if c = CHR ''^'' then rx_body cs else None)"

text \<open>
  Matching with the flag \<open>i\<close> and without the flag \<open>s\<close>: a literal matches a character with
  the same upper-case form, and the dot matches anything but a line terminator.
\<close>

definition line_terminator :: "char \<Rightarrow> bool" where
  "line_terminator c = (c = CHR 0x0A \<or> c = CHR 0x0D)"

fun rx_match :: "rx_item list \<Rightarrow> string \<Rightarrow> bool" where
  "rx_match [] s = (s = [])"
| "rx_match (Lit c # items) [] = False"
| "rx_match (Lit c # items) (x # xs) = (toUpperChar c = toUpperChar x \<and> rx_match items xs)"
| "rx_match (AnyStar # items) [] = rx_match items []"
| "rx_match (AnyStar # items) (x # xs) =
     (rx_match items (x # xs) \<or> (\<not> line_terminator x \<and> rx_match (AnyStar # items) xs))"

text \<open>\<open>value.match(new RegExp(src, 'i'))\<close> is not \<open>null\<close>.\<close>

definition regex_test :: "string \<Rightarrow> string \<Rightarrow> bool" where
  "regex_test src v = (case rx_parse src of None \<Rightarrow> False | Some items \<Rightarrow> rx_match items v)"

definition sqlLikeMatch :: "jsval \<Rightarrow> jsval \<Rightarrow> error + bool" where
  "sqlLikeMatch v matchString =
     (case matchString of
        JStr p \<Rightarrow>
          (case v of
             JNum n \<Rightarrow> Inr (regex_test (like_source p) (num_to_string n))
           | JBool b \<Rightarrow> Inr (regex_test (like_source p) (if b then ''true'' else ''false''))
           | JStr s \<Rightarrow> Inr (regex_test (like_source p) s)
           | _ \<Rightarrow> Inr False)
      | _ \<Rightarrow> Inl UnexpectedMatchString)"

definition checkStartsWith :: "jsval \<Rightarrow> jsval \<Rightarrow> error + bool" where
  "checkStartsWith v matchString = sqlLikeMatch v (JStr (js_toString matchString @ ''%''))"

definition checkEndsWith :: "jsval \<Rightarrow> jsval \<Rightarrow> error + bool" where
  "checkEndsWith v matchString = sqlLikeMatch v (JStr (''%'' @ js_toString matchString))"

definition checkContains :: "jsval \<Rightarrow> jsval \<Rightarrow> error + bool" where
  "checkContains v matchString = sqlLikeMatch v (JStr (''%'' @ js_toString matchString @ ''%''))"

definition checkLike :: "jsval \<Rightarrow> jsval \<Rightarrow> error + bool" where
  "checkLike v matchString = sqlLikeMatch v matchString"

section \<open>The criteria evaluator\<close>

text \<open>\<open>Math.pow(x, 2)\<close> on a number: the square, rounded.\<close>

fun num_square :: "jsnum \<Rightarrow> jsnum" where
  "num_square (Fin n) = round_double (n * n)"
| "num_square NaN = NaN"
| "num_square PosInf = PosInf"
| "num_square NegInf = PosInf"

definition isNumbery :: "jsval \<Rightarrow> bool" where
  "isNumbery v = (if isDate v then False else num_lt (Fin 0) (num_square (toNumber v)))"

text \<open>\<open>matchLiteral\<close>, the schema step: when the schema gives the attribute the type
  \<open>date\<close>, the value and the criterion become the ISO strings of the dates made from them.\<close>

definition schemaDates :: "dict \<Rightarrow> string \<Rightarrow> jsval \<Rightarrow> jsval \<Rightarrow> error + (jsval \<times> jsval)" where
  "schemaDates schema key val criterion =
     (if truthy (get_prop schema key) \<and> truthy (js_get (get_prop schema key) ''type'')
         \<and> js_get (get_prop schema key) ''type'' = JStr ''date''
      then (case toISOString (newDate val) of
              Inl e \<Rightarrow> Inl e
            | Inr v \<Rightarrow>
                (case toISOString (newDate criterion) of
                   Inl e \<Rightarrow> Inl e
                 | Inr c \<Rightarrow> Inr (JStr v, JStr c)))
      else Inr (val, criterion))"

text \<open>\<open>matchLiteral\<close>, the cast: when the criterion and the value are both numbery, both
  become numbers.\<close>

definition castNumbers :: "jsval \<Rightarrow> jsval \<Rightarrow> jsval \<times> jsval" where
  "castNumbers val criterion =
     (if isNumbery criterion \<and> isNumbery val
      then (JNum (toNumber val), JNum (toNumber criterion))
      else (val, criterion))"

text \<open>\<open>cloneDeep\<close> of the utility library, on a value of the model: the copy is the same
  value, but the copy of a function is an empty dictionary.\<close>

definition cloneDeep :: "jsval \<Rightarrow> jsval" where
  "cloneDeep v = (case v of JFun f \<Rightarrow> JObj [] | _ \<Rightarrow> v)"

text \<open>\<open>matchLiteral\<close>: the value is read and copied, then the schema step and the cast,
  and only then the checks that the attribute exists (\<open>model.hasOwnProperty(key)\<close>) and
  that the criterion is defined.\<close>

definition matchLiteral ::
  "dict \<Rightarrow> string \<Rightarrow> jsval \<Rightarrow> (jsval \<Rightarrow> jsval \<Rightarrow> error + bool) \<Rightarrow> dict \<Rightarrow> error + bool" where
  "matchLiteral model key criterion matchFn schema =
     (case schemaDates schema key (cloneDeep (get_prop model key)) criterion of
        Inl e \<Rightarrow> Inl e
      | Inr (val1, criterion1) \<Rightarrow>
          (case castNumbers val1 criterion1 of
             (val2, criterion2) \<Rightarrow>
               (case callHasOwnProperty model key of
                  Inl e \<Rightarrow> Inl e
                | Inr present \<Rightarrow>
                    if \<not> present then Inr False
                    else if criterion2 = JUndefined then Inr False
                    else matchFn val2 criterion2)))"

definition validAttributes :: "string list" where
  "validAttributes =
     [''equals'', ''not'', ''greaterThan'', ''lessThan'', ''greaterThanOrEqual'',
      ''lessThanOrEqual'', ''<'', ''<='', ''!'', ''>'', ''>='', ''startsWith'', ''endsWith'',
      ''contains'', ''like'']"

definition validSubAttrCriteria :: "jsval \<Rightarrow> bool" where
  "validSubAttrCriteria c =
     (case c of JObj kvs \<Rightarrow> list_ex (hasOwn kvs) validAttributes | _ \<Rightarrow> False)"

text \<open>\<open>isObject\<close> of the utility library: a value that is not primitive, a function
  included.\<close>

definition isObject :: "jsval \<Rightarrow> bool" where
  "isObject v =
     (case v of
        JObj kvs \<Rightarrow> True
      | JArr xs \<Rightarrow> True
      | JDate t \<Rightarrow> True
      | JFun f \<Rightarrow> True
      | _ \<Rightarrow> False)"

text \<open>
  The iteration helpers of the utility library (\<open>every\<close>, \<open>each\<close>, \<open>reduce\<close>) take a
  dictionary for an array when it has a property \<open>length\<close> that is a whole number from
  \<open>0\<close> to \<open>2^53 - 1\<close>, and then visit the indices below it, not the keys.
\<close>

definition isArrayLike :: "dict \<Rightarrow> bool" where
  "isArrayLike kvs =
     (case get_prop kvs ''length'' of
        JNum (Fin n) \<Rightarrow> - 1 < n \<and> of_int \<lfloor>n\<rfloor> = n \<and> n \<le> 9007199254740991
      | _ \<Rightarrow> False)"

text \<open>The keys and values that \<open>for (key in v)\<close> visits.\<close>

definition own_entries :: "jsval \<Rightarrow> dict" where
  "own_entries v =
     (case v of
        JObj kvs \<Rightarrow> kvs
      | JArr xs \<Rightarrow> zip (map nat_digits [0..<length xs]) xs
      | JStr s \<Rightarrow> zip (map nat_digits [0..<length s]) (map (\<lambda>c. JStr [c]) s)
      | _ \<Rightarrow> [])"

text \<open>\<open>matchLike\<close>: every attribute named in the criteria must match its pattern; the
  first one that does not ends the loop.\<close>

fun likeLoop :: "dict \<Rightarrow> dict \<Rightarrow> error + bool" where
  "likeLoop model [] = Inr True"
| "likeLoop model ((key, pattern) # rest) =
     (case checkLike (get_prop model key) pattern of
        Inl e \<Rightarrow> Inl e
      | Inr b \<Rightarrow> if b then likeLoop model rest else Inr False)"

definition matchLike :: "dict \<Rightarrow> jsval \<Rightarrow> dict \<Rightarrow> error + bool" where
  "matchLike model criteria schema = likeLoop model (own_entries criteria)"

text \<open>The loop of the IN query, \<open>some(criterion, ...)\<close>: ends at the first element that
  equals the value.\<close>

fun someEqual :: "jsval \<Rightarrow> jsval list \<Rightarrow> error + bool" where
  "someEqual v [] = Inr False"
| "someEqual v (x # xs) =
     (case compare_eq v x of
        Inl e \<Rightarrow> Inl e
      | Inr b \<Rightarrow> if b then Inr True else someEqual v xs)"

text \<open>The loop of the NOT IN query, \<open>criterion.forEach(...)\<close>: visits every element and
  tells whether one equalled the value.\<close>

fun anyEqual :: "jsval \<Rightarrow> jsval list \<Rightarrow> error + bool" where
  "anyEqual v [] = Inr False"
| "anyEqual v (x # xs) =
     (case compare_eq v x of
        Inl e \<Rightarrow> Inl e
      | Inr b \<Rightarrow> (case anyEqual v xs of Inl e \<Rightarrow> Inl e | Inr m \<Rightarrow> Inr (b \<or> m)))"

text \<open>\<open>if (parentKey)\<close>: the parent key is given and is not the empty string.\<close>

definition given :: "string option \<Rightarrow> bool" where
  "given parentKey = (case parentKey of None \<Rightarrow> False | Some k \<Rightarrow> k \<noteq> [])"

text \<open>What \<open>matchItem\<close> does with a key that is an array index, a number: with a parent
  key no modifier name equals it, without one it has no method \<open>toLowerCase\<close>.\<close>

definition indexKey :: "string option \<Rightarrow> error + bool" where
  "indexKey parentKey = (if given parentKey then Inl InvalidQuerySyntax else Inl TypeError)"

text \<open>\<open>matchItem\<close>, the branch \<open>if (parentKey) {...}\<close>: the key is a modifier of the
  attribute \<open>parentKey\<close>, and a key that is none raises the error.\<close>

definition matchModifier :: "dict \<Rightarrow> string \<Rightarrow> jsval \<Rightarrow> string \<Rightarrow> dict \<Rightarrow> error + bool" where
  "matchModifier model key criterion parentKey schema =
     (if key = ''equals'' \<or> key = ''='' \<or> key = ''equal'' then
        matchLiteral model parentKey criterion compare_eq schema
      else if key = ''not'' \<or> key = ''!'' then
        (case criterion of
           JArr vals \<Rightarrow>
             (case anyEqual (get_prop model parentKey) vals of
                Inl e \<Rightarrow> Inl e
              | Inr match \<Rightarrow> Inr (if match then False else True))
         | _ \<Rightarrow> matchLiteral model parentKey criterion compare_ne schema)
      else if key = ''greaterThan'' \<or> key = ''>'' then
        matchLiteral model parentKey criterion compare_gt schema
      else if key = ''greaterThanOrEqual'' \<or> key = ''>='' then
        matchLiteral model parentKey criterion compare_ge schema
      else if key = ''lessThan'' \<or> key = ''<'' then
        matchLiteral model parentKey criterion compare_lt schema
      else if key = ''lessThanOrEqual'' \<or> key = ''<='' then
        matchLiteral model parentKey criterion compare_le schema
      else if key = ''startsWith'' then
        matchLiteral model parentKey criterion checkStartsWith schema
      else if key = ''endsWith'' then
        matchLiteral model parentKey criterion checkEndsWith schema
      else if key = ''contains'' then
        matchLiteral model parentKey criterion checkContains schema
      else if key = ''like'' then
        matchLiteral model parentKey criterion checkLike schema
      else Inl InvalidQuerySyntax)"

text \<open>The keys that the branch above knows.\<close>

definition modifierKeys :: "string list" where
  "modifierKeys =
     [''equals'', ''='', ''equal'', ''not'', ''!'', ''greaterThan'', ''>'',
      ''greaterThanOrEqual'', ''>='', ''lessThan'', ''<'', ''lessThanOrEqual'', ''<='',
      ''startsWith'', ''endsWith'', ''contains'', ''like'']"

text \<open>
  The recursive part. \<open>matchEvery\<close> is the loop \<open>every(criteria, ...)\<close> of \<open>matchSet\<close>,
  which ends at the first entry that does not match. \<open>eachSet\<close> is the loop
  \<open>each(..., function(criteria) {... matchSet(model, criteria, undefined, schema) ...})\<close>
  of \<open>matchOr\<close> and \<open>matchAnd\<close>, which visits every element and gives the outcome of each:
  \<open>eachList\<close> visits the elements of an array or the entries of a dictionary, \<open>eachIndex\<close>
  the indices \<open>i\<close>, ..., \<open>n - 1\<close> of an array-like dictionary. The loops over entries take
  the entries still to visit inside \<open>JObj\<close> or \<open>JArr\<close>. An array and a string are visited
  by index, so that in \<open>matchSet\<close> their first element already fails in \<open>matchItem\<close>.
\<close>

function (sequential) matchSet :: "dict \<Rightarrow> jsval \<Rightarrow> string option \<Rightarrow> dict \<Rightarrow> error + bool"
  and matchEvery :: "dict \<Rightarrow> jsval \<Rightarrow> string option \<Rightarrow> dict \<Rightarrow> error + bool"
  and matchItem :: "dict \<Rightarrow> string \<Rightarrow> jsval \<Rightarrow> string option \<Rightarrow> dict \<Rightarrow> error + bool"
  and matchOr :: "dict \<Rightarrow> jsval \<Rightarrow> dict \<Rightarrow> error + bool"
  and matchAnd :: "dict \<Rightarrow> jsval \<Rightarrow> dict \<Rightarrow> error + bool"
  and matchNot :: "dict \<Rightarrow> jsval \<Rightarrow> dict \<Rightarrow> error + bool"
  and eachSet :: "dict \<Rightarrow> jsval \<Rightarrow> dict \<Rightarrow> error + bool list"
  and eachList :: "dict \<Rightarrow> jsval \<Rightarrow> dict \<Rightarrow> error + bool list"
  and eachIndex :: "dict \<Rightarrow> dict \<Rightarrow> nat \<Rightarrow> nat \<Rightarrow> dict \<Rightarrow> error + bool list" where
  "matchSet model criteria parentKey schema =
     (if \<not> truthy criteria then Inr True
      else case criteria of
        JObj kvs \<Rightarrow>
          if isArrayLike kvs
          then (if get_prop kvs ''length'' = JNum (Fin 0) then Inr True else indexKey parentKey)
          else matchEvery model criteria parentKey schema
      | JArr xs \<Rightarrow> if xs = [] then Inr True else indexKey parentKey
      | JStr s \<Rightarrow> indexKey parentKey
      | _ \<Rightarrow> Inr True)"
| "matchEvery model (JObj ((key, criterion) # rest)) parentKey schema =
     (case matchItem model key criterion parentKey schema of
        Inl e \<Rightarrow> Inl e
      | Inr b \<Rightarrow> if b then matchEvery model (JObj rest) parentKey schema else Inr False)"
| "matchEvery model v parentKey schema = Inr True"
| "matchItem model key criterion parentKey schema =
     (if given parentKey then matchModifier model key criterion (the parentKey) schema
      else if toLowerCase key = ''or'' then matchOr model criterion schema
      else if toLowerCase key = ''not'' then matchNot model criterion schema
      else if toLowerCase key = ''and'' then matchAnd model criterion schema
      else if toLowerCase key = ''like'' then matchLike model criterion schema
      else case criterion of
        JArr vals \<Rightarrow> someEqual (get_prop model key) vals
      | _ \<Rightarrow>
          if isObject criterion \<and> validSubAttrCriteria criterion
          then matchSet model criterion (Some key) schema
          else matchLiteral model key criterion compare_eq schema)"
| "matchOr model disjuncts schema =
     (case eachSet model disjuncts schema of
        Inl e \<Rightarrow> Inl e
      | Inr outcomes \<Rightarrow> Inr (length (filter (\<lambda>b. b) outcomes) > 0))"
| "matchAnd model conjuncts schema =
     (case eachSet model conjuncts schema of
        Inl e \<Rightarrow> Inl e
      | Inr outcomes \<Rightarrow> Inr (list_all (\<lambda>b. b) outcomes))"
| "matchNot model criteria schema =
     (case matchSet model criteria None schema of Inl e \<Rightarrow> Inl e | Inr b \<Rightarrow> Inr (\<not> b))"
| "eachSet model collection schema =
     (case collection of
        JObj kvs \<Rightarrow>
          if isArrayLike kvs
          then eachIndex model kvs 0
                 (nat (case get_prop kvs ''length'' of JNum (Fin n) \<Rightarrow> \<lfloor>n\<rfloor> | _ \<Rightarrow> 0)) schema
          else eachList model collection schema
      | JArr xs \<Rightarrow> eachList model collection schema
      | JStr s \<Rightarrow> if s = [] then Inr [] else Inl TypeError
      | _ \<Rightarrow> Inr [])"
| "eachList model (JArr (criteria # rest)) schema =
     (case matchSet model criteria None schema of
        Inl e \<Rightarrow> Inl e
      | Inr b \<Rightarrow>
          (case eachList model (JArr rest) schema of
             Inl e \<Rightarrow> Inl e
           | Inr bs \<Rightarrow> Inr (b # bs)))"
| "eachList model (JObj ((key, criteria) # rest)) schema =
     (case matchSet model criteria None schema of
        Inl e \<Rightarrow> Inl e
      | Inr b \<Rightarrow>
          (case eachList model (JObj rest) schema of
             Inl e \<Rightarrow> Inl e
           | Inr bs \<Rightarrow> Inr (b # bs)))"
| "eachList model v schema = Inr []"
| "eachIndex model kvs i n schema =
     (if i < n then
        (case matchSet model (get_prop kvs (nat_digits i)) None schema of
           Inl e \<Rightarrow> Inl e
         | Inr b \<Rightarrow>
             (case eachIndex model kvs (Suc i) n schema of
                Inl e \<Rightarrow> Inl e
              | Inr bs \<Rightarrow> Inr (b # bs)))
      else Inr [])"
  by pat_completeness auto

termination
proof -
  have sz: "size (get_prop kvs k) \<le> Suc (size_list (size_prod (\<lambda>x. 0) size) kvs)"
    for kvs :: dict and k
  proof -
    have "size (inherited k) \<le> 1"
      by (simp add: inherited_def)
    moreover have "map_of kvs k = Some v \<Longrightarrow> size v \<le> size_list (size_prod (\<lambda>x. 0) size) kvs"
      for v
      by (induction kvs) (auto split: if_splits)
    ultimately show ?thesis
      by (auto simp: get_prop_def split: option.splits)
  qed
  show ?thesis
    apply (relation "measures
        [case_sum
          (case_sum
            (case_sum (\<lambda>(m, c, p, s). 10 * size c + 5) (\<lambda>(m, c, p, s). 10 * size c + 4))
            (case_sum (\<lambda>(m, k, c, p, s). 10 * size c + 9) (\<lambda>(m, c, s). 10 * size c + 8)))
          (case_sum
            (case_sum (\<lambda>(m, c, s). 10 * size c + 8) (\<lambda>(m, c, s). 10 * size c + 8))
            (case_sum (\<lambda>(m, c, s). 10 * size c + 7)
              (case_sum (\<lambda>(m, c, s). 10 * size c + 6)
                 (\<lambda>(m, kvs, i, n, s). 10 * size (JObj kvs) + 6)))),
         case_sum (\<lambda>x. 0)
          (case_sum (\<lambda>x. 0)
            (case_sum (\<lambda>x. 0) (case_sum (\<lambda>x. 0) (\<lambda>(m, kvs, i, n, s). n - i))))]")
                    apply simp_all
    subgoal for kvs i n
      using sz [of kvs "nat_digits i"] by linarith
    done
qed

text \<open>The filter stage: the tuples that match, in their order. Absent data (\<open>None\<close>) is
  returned as it is; an absent schema is the empty dictionary.\<close>

fun filterLoop :: "dict list \<Rightarrow> jsval \<Rightarrow> dict \<Rightarrow> error + dict list" where
  "filterLoop [] wh schema = Inr []"
| "filterLoop (tuple # rest) wh schema =
     (case matchSet tuple wh None schema of
        Inl e \<Rightarrow> Inl e
      | Inr b \<Rightarrow>
          (case filterLoop rest wh schema of
             Inl e \<Rightarrow> Inl e
           | Inr ts \<Rightarrow> Inr (if b then tuple # ts else ts)))"

definition whereFilter :: "dict list option \<Rightarrow> jsval \<Rightarrow> dict \<Rightarrow> error + dict list option" where
  "whereFilter data wh schema =
     (case data of
        None \<Rightarrow> Inr None
      | Some tuples \<Rightarrow>
          (case filterLoop tuples wh schema of Inl e \<Rightarrow> Inl e | Inr ts \<Rightarrow> Inr (Some ts)))"

section \<open>The pagination stage\<close>

text \<open>\<open>toInteger\<close> of the utility library: no number and \<open>NaN\<close> give \<open>0\<close>, an infinity
  gives the largest double with its sign, and a fraction is dropped.\<close>

definition toInteger :: "jsval \<Rightarrow> int" where
  "toInteger v =
     (if \<not> truthy v then 0
      else case toNumber v of
        Fin n \<Rightarrow> truncate n
      | NaN \<Rightarrow> 0
      | PosInf \<Rightarrow> 17976931348623157 * 10 ^ 292
      | NegInf \<Rightarrow> - (17976931348623157 * 10 ^ 292))"

text \<open>\<open>baseSlice\<close> of the utility library: the elements from \<open>start\<close> up to \<open>end\<close>, a
  negative position counting from the end of the array.\<close>

definition baseSlice :: "'a list \<Rightarrow> int \<Rightarrow> int \<Rightarrow> 'a list" where
  "baseSlice xs start end =
     (let len = int (length xs);
          start1 = (if start < 0 then (if - start > len then 0 else len + start) else start);
          end1 = (if end > len then len else end);
          end2 = (if end1 < 0 then end1 + len else end1);
          n = (if start1 > end2 then 0 else end2 - start1)
      in take (nat n) (drop (nat start1) xs))"

text \<open>\<open>slice(array, start, end)\<close> of the utility library: an absent \<open>start\<close> is \<open>0\<close>, an
  \<open>end\<close> that is \<open>undefined\<close> is the length, any other value goes through \<open>toInteger\<close>.\<close>

definition slice :: "'a list \<Rightarrow> jsval \<Rightarrow> jsval \<Rightarrow> 'a list" where
  "slice xs start end =
     (if length xs = 0 then []
      else baseSlice xs
             (if start = JUndefined \<or> start = JNull then 0 else toInteger start)
             (if end = JUndefined then int (length xs) else toInteger end))"

text \<open>The data of a stage is an array of tuples, or absent (\<open>None\<close>: \<open>null\<close> or
  \<open>undefined\<close>), and absent data is returned as it is.\<close>

definition limit :: "'a list option \<Rightarrow> jsval \<Rightarrow> 'a list option" where
  "limit data limit' =
     (case data of
        None \<Rightarrow> data
      | Some tuples \<Rightarrow>
          if limit' = JUndefined \<or> limit' = JNum (Fin 0) then data
          else Some (slice tuples (JNum (Fin 0)) limit'))"

definition skip :: "'a list option \<Rightarrow> jsval \<Rightarrow> 'a list option" where
  "skip data numToSkip =
     (case data of
        None \<Rightarrow> data
      | Some tuples \<Rightarrow>
          if truthy numToSkip then Some (slice tuples numToSkip JUndefined) else data)"

section \<open>The sort stage\<close>

text \<open>The default of the parameter \<open>when\<close>.\<close>

definition rankSpecialCase :: "dict \<Rightarrow> string \<Rightarrow> bool" where
  "rankSpecialCase record attrName =
     (if get_prop record attrName = JUndefined \<or> get_prop record attrName = JNull then False
      else True)"

text \<open>The entries that \<open>reduce\<close> and \<open>each\<close> of the utility library visit: the keys of a
  dictionary, but the indices below \<open>length\<close> when the dictionary is array-like.\<close>

definition visited :: "jsval \<Rightarrow> dict" where
  "visited v =
     (case v of
        JObj kvs \<Rightarrow>
          if isArrayLike kvs
          then map (\<lambda>i. (nat_digits i, get_prop kvs (nat_digits i)))
                 [0..<nat (case get_prop kvs ''length'' of JNum (Fin n) \<Rightarrow> \<lfloor>n\<rfloor> | _ \<Rightarrow> 0)]
          else kvs
      | _ \<Rightarrow> own_entries v)"

datatype outcome = LESS_THAN | EQUAL | GREATER_THAN


text \<open>The body of the function given to \<open>reduce\<close> in \<open>sortData\<close>: one key of the sort
  vector, with the flag so far.\<close>

definition sortStep :: "(dict \<Rightarrow> string \<Rightarrow> bool) \<Rightarrow> dict \<Rightarrow> dict \<Rightarrow> jsval \<Rightarrow> string \<times> jsval \<Rightarrow> jsval" where
  "sortStep when a b flagSoFar entry =
     (case entry of (attrName, sortDirection) \<Rightarrow>
        let outcome =
          (if \<not> when a attrName \<and> \<not> when b attrName then EQUAL
           else if \<not> when a attrName \<and> when b attrName then LESS_THAN
           else if when a attrName \<and> \<not> when b attrName then GREATER_THAN
           else if js_lt (get_prop a attrName) (get_prop b attrName) then LESS_THAN
           else if js_lt (get_prop b attrName) (get_prop a attrName) then GREATER_THAN
           else EQUAL)
        in if outcome = LESS_THAN then
             (if truthy flagSoFar then flagSoFar else JNum (num_neg (toNumber sortDirection)))
           else if outcome = GREATER_THAN then
             (if truthy flagSoFar then flagSoFar else sortDirection)
           else flagSoFar)"

text \<open>The function \<open>_compare\<close> given to \<open>data.sort\<close>.\<close>

definition compareTuples :: "(dict \<Rightarrow> string \<Rightarrow> bool) \<Rightarrow> jsval \<Rightarrow> dict \<Rightarrow> dict \<Rightarrow> jsval" where
  "compareTuples when sortVector a b = foldl (sortStep when a b) (JNum (Fin 0)) (visited sortVector)"

text \<open>
  \<open>data.sort(compare)\<close>. The language asks for a stable sort and leaves the algorithm
  open; with a comparator that is a consistent ordering every algorithm gives the same
  array. The model is the insertion sort: an element goes before the first later element
  that the comparator does not put before it. A result of the comparator that is not a
  number above zero, \<open>NaN\<close> included, does not put the second element first.
\<close>

fun array_insert :: "('a \<Rightarrow> 'a \<Rightarrow> jsval) \<Rightarrow> 'a \<Rightarrow> 'a list \<Rightarrow> 'a list" where
  "array_insert cmp x [] = [x]"
| "array_insert cmp x (y # ys) =
     (if num_lt (Fin 0) (toNumber (cmp x y)) then y # array_insert cmp x ys else x # y # ys)"

fun array_sort :: "('a \<Rightarrow> 'a \<Rightarrow> jsval) \<Rightarrow> 'a list \<Rightarrow> 'a list" where
  "array_sort cmp [] = []"
| "array_sort cmp (x # xs) = array_insert cmp x (array_sort cmp xs)"

definition sortData :: "dict list \<Rightarrow> jsval \<Rightarrow> (dict \<Rightarrow> string \<Rightarrow> bool) \<Rightarrow> dict list" where
  "sortData data sortVector when = array_sort (compareTuples when sortVector) data"

text \<open>The sort stage: without a comparator or without data the data is returned as it
  is; the third parameter is optional.\<close>

definition sortStage ::
  "dict list option \<Rightarrow> jsval \<Rightarrow> (dict \<Rightarrow> string \<Rightarrow> bool) option \<Rightarrow> dict list option" where
  "sortStage data comparator when =
     (case data of
        None \<Rightarrow> data
      | Some tuples \<Rightarrow>
          if truthy comparator
          then Some (sortData tuples comparator
                       (case when of None \<Rightarrow> rankSpecialCase | Some w \<Rightarrow> w))
          else data)"

section \<open>The projection stage\<close>

text \<open>
  The stage works on the dictionary that the caller passes: \<open>delete fields['*']\<close> removes
  the key from that very object, and the nested call does the same to a nested spec. The
  model therefore returns two things, the projected tuples and the value of the caller's
  \<open>fields\<close> after the call. \<open>selectMap\<close> is the loop \<open>map(tuples, ...)\<close> and \<open>selectEach\<close>
  the loop \<open>each(fields, ...)\<close> inside it; both carry the spec as it is at that moment. The
  first argument of the three functions bounds the depth of the nested calls that may
  still be made; \<open>None\<close> says that the bound was reached. An element of the data that is
  no dictionary is read by its indices when it is an array or a string and has no
  properties otherwise.
\<close>

text \<open>\<open>obj[key] = v\<close> on a dictionary: an existing key keeps its place.\<close>

fun assign :: "dict \<Rightarrow> string \<Rightarrow> jsval \<Rightarrow> dict" where
  "assign [] k v = [(k, v)]"
| "assign ((k', v') # d) k v = (if k' = k then (k, v) # d else (k', v') # assign d k v)"

text \<open>\<open>delete obj[key]\<close> on a dictionary.\<close>

definition delete_key :: "string \<Rightarrow> dict \<Rightarrow> dict" where
  "delete_key k d = filter (\<lambda>entry. fst entry \<noteq> k) d"

text \<open>The function \<open>arrayToDict\<close> given to \<open>reduce\<close>: every name of the array becomes a
  key with the value \<open>true\<close>.\<close>

definition arrayToDict :: "jsval list \<Rightarrow> dict" where
  "arrayToDict names = foldl (\<lambda>memo attrName. assign memo (js_toString attrName) (JBool True)) [] names"

text \<open>\<open>omit(tuple, predicate)\<close> with the predicate of the source: the own entries of the
  tuple but those with one of the given names.\<close>

definition omit :: "jsval \<Rightarrow> string list \<Rightarrow> dict" where
  "omit tuple names = filter (\<lambda>entry. fst entry \<notin> set names) (own_entries tuple)"

text \<open>\<open>pick(tuple, names)\<close>: in the order of the names, the entries that the tuple has,
  an inherited one included.\<close>

definition pick :: "jsval \<Rightarrow> string list \<Rightarrow> dict" where
  "pick tuple names =
     concat (map (\<lambda>k. case map_of (own_entries tuple) k of
                         None \<Rightarrow>
                           (case tuple of
                              JObj d \<Rightarrow> if inherited k = JUndefined then [] else [(k, inherited k)]
                            | _ \<Rightarrow> [])
                       | Some v \<Rightarrow> [(k, v)]) names)"

definition typeof_object :: "jsval \<Rightarrow> bool" where
  "typeof_object v =
     (case v of
        JNull \<Rightarrow> True
      | JObj kvs \<Rightarrow> True
      | JArr xs \<Rightarrow> True
      | JDate t \<Rightarrow> True
      | _ \<Rightarrow> False)"

function (sequential) select :: "nat \<Rightarrow> jsval list \<Rightarrow> jsval \<Rightarrow> (error + jsval list \<times> jsval) option"
  and selectMap :: "nat \<Rightarrow> bool \<Rightarrow> string list \<Rightarrow> jsval list \<Rightarrow> dict \<Rightarrow> (error + jsval list \<times> dict) option"
  and selectEach :: "nat \<Rightarrow> string list \<Rightarrow> dict \<Rightarrow> dict \<Rightarrow> (error + dict \<times> dict) option" where
  "select 0 tuples fields = None"
| "select (Suc n) tuples fields =
     (if fields = JNull then Some (Inl TypeError)
      else if \<not> typeof_object fields \<and> fields \<noteq> JStr ''*'' then Some (Inr (tuples, fields))
      else
        let work = (case fields of
                      JObj kvs \<Rightarrow> kvs
                    | JArr names \<Rightarrow> arrayToDict names
                    | JStr s \<Rightarrow> [(''*'', JBool True)]
                    | _ \<Rightarrow> []);
            hasSplat = truthy (get_prop work ''*'');
            fieldsToExplicitlyOmit = filter (\<lambda>key. get_prop work key = JBool False) (map fst work)
        in case selectMap n hasSplat fieldsToExplicitlyOmit tuples (delete_key ''*'' work) of
             None \<Rightarrow> None
           | Some (Inl e) \<Rightarrow> Some (Inl e)
           | Some (Inr (result, work')) \<Rightarrow>
               Some (Inr (result, case fields of JObj kvs \<Rightarrow> JObj work' | _ \<Rightarrow> fields)))"
| "selectMap n hasSplat names [] fields = Some (Inr ([], fields))"
| "selectMap n hasSplat names (tuple # rest) fields =
     (case selectEach n (map fst (visited (JObj fields)))
             (if hasSplat then omit tuple names else pick tuple (map fst fields)) fields of
        None \<Rightarrow> None
      | Some (Inl e) \<Rightarrow> Some (Inl e)
      | Some (Inr (tuple', fields')) \<Rightarrow>
          (case selectMap n hasSplat names rest fields' of
             None \<Rightarrow> None
           | Some (Inl e) \<Rightarrow> Some (Inl e)
           | Some (Inr (result, fields'')) \<Rightarrow> Some (Inr (JObj tuple' # result, fields''))))"
| "selectEach n [] tuple fields = Some (Inr (tuple, fields))"
| "selectEach n (attrName # rest) tuple fields =
     (if typeof_object (get_prop fields attrName) then
        (case get_prop tuple attrName of
           JArr xs \<Rightarrow>
             (case select n xs (get_prop fields attrName) of
                None \<Rightarrow> None
              | Some (Inl e) \<Rightarrow> Some (Inl e)
              | Some (Inr (result, subselect')) \<Rightarrow>
                  selectEach n rest (assign tuple attrName (JArr result))
                    (assign fields attrName subselect'))
         | v \<Rightarrow>
             if isObject v then
               (case select n [v] (get_prop fields attrName) of
                  None \<Rightarrow> None
                | Some (Inl e) \<Rightarrow> Some (Inl e)
                | Some (Inr (result, subselect')) \<Rightarrow>
                    selectEach n rest
                      (assign tuple attrName (case result of [] \<Rightarrow> JUndefined | r # _ \<Rightarrow> r))
                      (assign fields attrName subselect'))
             else selectEach n rest tuple fields)
      else selectEach n rest tuple fields)"
  by pat_completeness auto

termination
  by (relation "measures
        [case_sum (\<lambda>(n, ts, f). 3 * n)
           (case_sum (\<lambda>(n, h, ns, ts, f). 3 * n + 2) (\<lambda>(n, ks, t, f). 3 * n + 1)),
         case_sum (\<lambda>(n, ts, f). 0)
           (case_sum (\<lambda>(n, h, ns, ts, f). length ts) (\<lambda>(n, ks, t, f). length ks))]")
     simp_all

section \<open>Properties\<close>

declare matchSet.simps [simp del] matchItem.simps [simp del] eachIndex.simps [simp del]
  select.simps [simp del]

text \<open>No object inherits an entry \<open>length\<close>.\<close>

lemma inherited_length [simp]: "inherited ''length'' = JUndefined"
  by (simp add: inherited_def prototypeMethods_def)

subsection \<open>The limit stage with the count \<open>null\<close>\<close>

text \<open>
  Claim C10. The guard of the limit stage lets the data through unchanged for the count
  \<open>undefined\<close>, for the count \<open>0\<close> and for absent data only. The count \<open>null\<close> is none of
  them: it reaches the slice, where it stands for the end position \<open>0\<close>, so that the result
  is the empty sequence for every sequence of tuples, the non-empty ones included.
\<close>

theorem limit_null_empty:
  "limit (Some T) JNull = Some []
   \<and> limit (Some T) JUndefined = Some T
   \<and> limit (Some T) (JNum (Fin 0)) = Some T
   \<and> limit None n = (None :: 'a list option)"
  by (simp add: limit_def slice_def baseSlice_def toInteger_def)

subsection \<open>The combinators \<open>or\<close> and \<open>and\<close>\<close>




text \<open>The loop over a list of criteria that all evaluate gives the outcome of each.\<close>

lemma eachList_array:
  "\<forall>c \<in> set L. \<exists>b. matchSet t c None schema = Inr b \<Longrightarrow>
   eachList t (JArr L) schema = Inr (map (\<lambda>c. matchSet t c None schema = Inr True) L)"
  by (induction L) auto

lemma eachSet_array:
  "\<forall>c \<in> set L. \<exists>b. matchSet t c None schema = Inr b \<Longrightarrow>
   eachSet t (JArr L) schema = Inr (map (\<lambda>c. matchSet t c None schema = Inr True) L)"
  by (simp add: eachList_array)

text \<open>An error in one of the criteria is an error of the loop: there is no early exit.\<close>

lemma eachList_array_error:
  "c \<in> set L \<Longrightarrow> matchSet t c None schema = Inl e \<Longrightarrow> \<exists>e'. eachList t (JArr L) schema = Inl e'"
  by (induction L) (auto split: sum.splits)

lemma eachSet_array_error:
  "c \<in> set L \<Longrightarrow> matchSet t c None schema = Inl e \<Longrightarrow> \<exists>e'. eachSet t (JArr L) schema = Inl e'"
  using eachList_array_error [of c L t schema e] by simp



subsection \<open>The sort stage and absent values\<close>

text \<open>The insertion keeps the elements.\<close>

lemma set_array_insert: "set (array_insert cmp x ys) = insert x (set ys)"
  by (induction ys) auto

lemma length_array_insert: "length (array_insert cmp x ys) = Suc (length ys)"
  by (induction ys) auto

lemma set_array_sort: "set (array_sort cmp xs) = set xs"
  by (induction xs) (auto simp: set_array_insert)

lemma length_array_sort: "length (array_sort cmp xs) = length xs"
  by (induction xs) (auto simp: length_array_insert)

text \<open>
  Two groups of elements, the high ones (\<open>s\<close>) and the others: when the comparator puts a
  high element after one that is not high, and never the other way round, then the sorted
  array has the high elements at the end, whatever the comparator says inside a group.
\<close>

lemma array_insert_groups:
  assumes h1: "\<And>x y. s x \<Longrightarrow> \<not> s y \<Longrightarrow> num_lt (Fin 0) (toNumber (cmp x y))"
    and h2: "\<And>x y. \<not> s x \<Longrightarrow> s y \<Longrightarrow> \<not> num_lt (Fin 0) (toNumber (cmp x y))"
    and srt: "sorted_wrt (\<lambda>x y. s x \<longrightarrow> s y) ys"
  shows "sorted_wrt (\<lambda>x y. s x \<longrightarrow> s y) (array_insert cmp x ys)"
  using srt
proof (induction ys)
  case Nil
  then show ?case by simp
next
  case (Cons y ys)
  have tail: "sorted_wrt (\<lambda>x y. s x \<longrightarrow> s y) ys"
    and head: "\<forall>z \<in> set ys. s y \<longrightarrow> s z"
    using Cons.prems by simp_all
  have ih: "sorted_wrt (\<lambda>x y. s x \<longrightarrow> s y) (array_insert cmp x ys)"
    using tail by (rule Cons.IH)
  show ?case
  proof (cases "num_lt (Fin 0) (toNumber (cmp x y))")
    case True
    have "s y \<longrightarrow> s x"
    proof
      assume "s y"
      show "s x"
      proof (rule ccontr)
        assume "\<not> s x"
        then have "\<not> num_lt (Fin 0) (toNumber (cmp x y))" using \<open>s y\<close> by (rule h2)
        with True show False by simp
      qed
    qed
    with True ih head show ?thesis by (simp add: set_array_insert)
  next
    case False
    have xy: "s x \<longrightarrow> s y"
    proof
      assume "s x"
      show "s y"
      proof (rule ccontr)
        assume "\<not> s y"
        with \<open>s x\<close> have "num_lt (Fin 0) (toNumber (cmp x y))" by (rule h1)
        with False show False by simp
      qed
    qed
    have e: "array_insert cmp x (y # ys) = x # y # ys"
      using False by simp
    have "\<forall>z \<in> set (y # ys). s x \<longrightarrow> s z"
      using xy head unfolding list.set by blast
    then have "sorted_wrt (\<lambda>x y. s x \<longrightarrow> s y) (x # y # ys)"
      using Cons.prems by (rule sorted_wrt.simps(2) [THEN iffD2, OF conjI])
    then show ?thesis by (simp only: e)
  qed
qed

lemma array_sort_groups:
  assumes h1: "\<And>x y. s x \<Longrightarrow> \<not> s y \<Longrightarrow> num_lt (Fin 0) (toNumber (cmp x y))"
    and h2: "\<And>x y. \<not> s x \<Longrightarrow> s y \<Longrightarrow> \<not> num_lt (Fin 0) (toNumber (cmp x y))"
  shows "sorted_wrt (\<lambda>x y. s x \<longrightarrow> s y) (array_sort cmp xs)"
proof (induction xs)
  case Nil
  then show ?case by simp
next
  case (Cons x xs)
  have "sorted_wrt (\<lambda>x y. s x \<longrightarrow> s y) (array_insert cmp x (array_sort cmp xs))"
  proof (rule array_insert_groups)
    show "\<And>x y. s x \<Longrightarrow> \<not> s y \<Longrightarrow> num_lt (Fin 0) (toNumber (cmp x y))" by (rule h1)
    show "\<And>x y. \<not> s x \<Longrightarrow> s y \<Longrightarrow> \<not> num_lt (Fin 0) (toNumber (cmp x y))" by (rule h2)
    show "sorted_wrt (\<lambda>x y. s x \<longrightarrow> s y) (array_sort cmp xs)" by (rule Cons.IH)
  qed
  then show ?case by simp
qed

text \<open>The comparator on a sort vector with one key.\<close>

lemma compareTuples_single:
  assumes "k \<noteq> ''length''"
  shows "compareTuples w (JObj [(k, dir)]) a b = sortStep w a b (JNum (Fin 0)) (k, dir)"
  using assms
  by (simp add: compareTuples_def visited_def isArrayLike_def get_prop_def inherited_def
      prototypeMethods_def)

lemma compareTuples_absent_present:
  assumes "k \<noteq> ''length''" and "\<not> rankSpecialCase a k" and "rankSpecialCase b k"
  shows "compareTuples rankSpecialCase (JObj [(k, JNum (Fin d))]) a b = JNum (Fin (- d))"
    and "compareTuples rankSpecialCase (JObj [(k, JNum (Fin d))]) b a = JNum (Fin d)"
  using assms by (simp_all add: compareTuples_single sortStep_def)

lemma compareTuples_absent_absent:
  assumes "k \<noteq> ''length''" and "\<not> rankSpecialCase a k" and "\<not> rankSpecialCase b k"
  shows "compareTuples rankSpecialCase (JObj [(k, JNum (Fin d))]) a b = JNum (Fin 0)"
  using assms by (simp add: compareTuples_single sortStep_def)

text \<open>A flag that is set stays as it is.\<close>

lemma sortStep_sticky: "truthy f \<Longrightarrow> sortStep w a b f e = f"
  by (cases e) (simp add: sortStep_def Let_def)

lemma foldl_sortStep_sticky: "truthy f \<Longrightarrow> foldl (sortStep w a b) f es = f"
  by (induction es) (simp_all add: sortStep_sticky)

text \<open>The comparator at the first key that sets the flag, for a tuple without a value
  there and a tuple with one.\<close>

lemma compareTuples_deciding_key:
  assumes "\<not> isArrayLike (pre @ (k, JNum (Fin d)) # post)" and "d \<noteq> 0"
    and "\<not> rankSpecialCase a k" and "rankSpecialCase b k"
  shows "\<not> truthy (foldl (sortStep rankSpecialCase a b) (JNum (Fin 0)) pre) \<Longrightarrow>
           compareTuples rankSpecialCase (JObj (pre @ (k, JNum (Fin d)) # post)) a b
             = JNum (Fin (- d))"
    and "\<not> truthy (foldl (sortStep rankSpecialCase b a) (JNum (Fin 0)) pre) \<Longrightarrow>
           compareTuples rankSpecialCase (JObj (pre @ (k, JNum (Fin d)) # post)) b a
             = JNum (Fin d)"
proof -
  have v: "visited (JObj (pre @ (k, JNum (Fin d)) # post)) = pre @ (k, JNum (Fin d)) # post"
    using assms(1) by (simp add: visited_def)
  show "compareTuples rankSpecialCase (JObj (pre @ (k, JNum (Fin d)) # post)) a b
             = JNum (Fin (- d))"
    if "\<not> truthy (foldl (sortStep rankSpecialCase a b) (JNum (Fin 0)) pre)"
  proof -
    have "sortStep rankSpecialCase a b (foldl (sortStep rankSpecialCase a b) (JNum (Fin 0)) pre)
            (k, JNum (Fin d)) = JNum (Fin (- d))"
      using that assms(3,4) by (simp add: sortStep_def)
    then show ?thesis
      using assms(2) by (simp add: compareTuples_def v foldl_sortStep_sticky)
  qed
  show "compareTuples rankSpecialCase (JObj (pre @ (k, JNum (Fin d)) # post)) b a
             = JNum (Fin d)"
    if "\<not> truthy (foldl (sortStep rankSpecialCase b a) (JNum (Fin 0)) pre)"
  proof -
    have "sortStep rankSpecialCase b a (foldl (sortStep rankSpecialCase b a) (JNum (Fin 0)) pre)
            (k, JNum (Fin d)) = JNum (Fin d)"
      using that assms(3,4) by (simp add: sortStep_def)
    then show ?thesis
      using assms(2) by (simp add: compareTuples_def v foldl_sortStep_sticky)
  qed
qed

text \<open>
  Claim C1, as the code has it. With the default rank function a tuple whose sort key is
  \<open>null\<close> or absent ranks lower than every tuple that has a value there. At the key \<open>k\<close>
  with the direction \<open>d\<close>, not zero, when no earlier key of the sort vector has set the
  flag, the comparator gives \<open>-d\<close> for a tuple without a value against a tuple with one,
  and \<open>d\<close> the other way round (the sort vector having no numeric entry \<open>length\<close>). A sort
  by the one key \<open>k\<close>, any key but \<open>length\<close>, therefore puts the tuples without a value
  first when it is ascending (\<open>d > 0\<close>) and last when it is descending (\<open>d < 0\<close>); the
  output has the tuples of the input.
\<close>

theorem sort_null_lowest:
  assumes "\<not> rankSpecialCase a k" and "rankSpecialCase b k"
    and "\<not> isArrayLike (pre @ (k, JNum (Fin d)) # post)" and "d \<noteq> 0"
    and "k' \<noteq> ''length''"
  shows "(\<not> truthy (foldl (sortStep rankSpecialCase a b) (JNum (Fin 0)) pre) \<longrightarrow>
            compareTuples rankSpecialCase (JObj (pre @ (k, JNum (Fin d)) # post)) a b
              = JNum (Fin (- d)))
       \<and> (\<not> truthy (foldl (sortStep rankSpecialCase b a) (JNum (Fin 0)) pre) \<longrightarrow>
            compareTuples rankSpecialCase (JObj (pre @ (k, JNum (Fin d)) # post)) b a
              = JNum (Fin d))
       \<and> (\<exists>out. sortStage (Some T) (JObj [(k', JNum (Fin d'))]) None = Some out
             \<and> set out = set T \<and> length out = length T
             \<and> (0 < d' \<longrightarrow> sorted_wrt (\<lambda>x y. rankSpecialCase x k' \<longrightarrow> rankSpecialCase y k') out)
             \<and> (d' < 0 \<longrightarrow> sorted_wrt (\<lambda>x y. rankSpecialCase y k' \<longrightarrow> rankSpecialCase x k') out))"
proof -
  let ?cmp = "compareTuples rankSpecialCase (JObj [(k', JNum (Fin d'))])"
  let ?out = "array_sort ?cmp T"
  have stage: "sortStage (Some T) (JObj [(k', JNum (Fin d'))]) None = Some ?out"
    by (simp add: sortStage_def sortData_def)
  have up: "sorted_wrt (\<lambda>x y. rankSpecialCase x k' \<longrightarrow> rankSpecialCase y k') ?out" if "0 < d'"
    by (rule array_sort_groups) (use that assms(5) in \<open>simp_all add: compareTuples_absent_present\<close>)
  have contra: "(\<lambda>x y. \<not> rankSpecialCase x k' \<longrightarrow> \<not> rankSpecialCase y k')
               = (\<lambda>x y. rankSpecialCase y k' \<longrightarrow> rankSpecialCase x k')"
    by (intro ext) blast
  have "sorted_wrt (\<lambda>x y. \<not> rankSpecialCase x k' \<longrightarrow> \<not> rankSpecialCase y k') ?out" if "d' < 0"
    by (rule array_sort_groups) (use that assms(5) in \<open>simp_all add: compareTuples_absent_present\<close>)
  then have down: "sorted_wrt (\<lambda>x y. rankSpecialCase y k' \<longrightarrow> rankSpecialCase x k') ?out" if "d' < 0"
    using that by (simp only: contra)
  have out: "\<exists>out. sortStage (Some T) (JObj [(k', JNum (Fin d'))]) None = Some out
             \<and> set out = set T \<and> length out = length T
             \<and> (0 < d' \<longrightarrow> sorted_wrt (\<lambda>x y. rankSpecialCase x k' \<longrightarrow> rankSpecialCase y k') out)
             \<and> (d' < 0 \<longrightarrow> sorted_wrt (\<lambda>x y. rankSpecialCase y k' \<longrightarrow> rankSpecialCase x k') out)"
    using stage up down set_array_sort [of ?cmp T] length_array_sort [of ?cmp T] by blast
  show ?thesis
    using compareTuples_deciding_key [OF assms(3,4,1,2)] out by blast
qed

theorem sort_null_lowest_witness:
  "''a'' \<noteq> ''length''
   \<and> compareTuples rankSpecialCase (JObj [(''b'', JNum (Fin 1)), (''a'', JNum (Fin (- 1)))])
        [(''a'', JNull), (''b'', JNum (Fin 5))] [(''a'', JNum (Fin 2)), (''b'', JNum (Fin 5))]
      = JNum (Fin 1)
   \<and> compareTuples rankSpecialCase (JObj [(''a'', JNum (Fin 1))])
        [(''a'', JNull)] [(''a'', JNum (Fin 2))] = JNum (Fin (- 1))
   \<and> sortStage (Some [[(''a'', JNum (Fin 2))], [(''a'', JNull)], [(''a'', JNum (Fin 1))]])
        (JObj [(''a'', JNum (Fin 1))]) None
      = Some [[(''a'', JNull)], [(''a'', JNum (Fin 1))], [(''a'', JNum (Fin 2))]]"
proof -
  have k: "''a'' \<noteq> ''length''" by simp
  have r: "\<not> rankSpecialCase [(''a'', JNull), (''b'', JNum (Fin 5))] ''a''"
    "rankSpecialCase [(''a'', JNum (Fin 2)), (''b'', JNum (Fin 5))] ''a''"
    by (simp_all add: rankSpecialCase_def get_prop_def)
  have l: "\<not> isArrayLike ([(''b'', JNum (Fin 1))] @ (''a'', JNum (Fin (- 1))) # [])"
    by (simp add: isArrayLike_def get_prop_def inherited_def prototypeMethods_def)
  have d: "(- 1 :: rat) \<noteq> 0" by simp
  have f: "\<not> truthy (foldl (sortStep rankSpecialCase
              [(''a'', JNull), (''b'', JNum (Fin 5))] [(''a'', JNum (Fin 2)), (''b'', JNum (Fin 5))])
              (JNum (Fin 0)) [(''b'', JNum (Fin 1))])"
    by code_simp
  have c: "compareTuples rankSpecialCase (JObj [(''b'', JNum (Fin 1)), (''a'', JNum (Fin (- 1)))])
        [(''a'', JNull), (''b'', JNum (Fin 5))] [(''a'', JNum (Fin 2)), (''b'', JNum (Fin 5))]
      = JNum (Fin 1)"
    using sort_null_lowest [OF r l d k, THEN conjunct1] f by simp
  have c1: "compareTuples rankSpecialCase (JObj [(''a'', JNum (Fin 1))])
        [(''a'', JNull)] [(''a'', JNum (Fin 2))] = JNum (Fin (- 1))"
    by code_simp
  have s: "sortStage (Some [[(''a'', JNum (Fin 2))], [(''a'', JNull)], [(''a'', JNum (Fin 1))]])
        (JObj [(''a'', JNum (Fin 1))]) None
      = Some [[(''a'', JNull)], [(''a'', JNum (Fin 1))], [(''a'', JNum (Fin 2))]]"
    by code_simp
  show ?thesis
    using k c c1 s by simp
qed

text \<open>
  The claim as the spec states it, with the tuples without a value last in both
  directions, fails on its own example: the ascending sort of \<open>[{a:2},{a:null},{a:1}]\<close>
  is \<open>[{a:null},{a:1},{a:2}]\<close>, not \<open>[{a:1},{a:2},{a:null}]\<close>.
\<close>

theorem sort_nulls_last_counterexample:
  "sortStage (Some [[(''a'', JNum (Fin 2))], [(''a'', JNull)], [(''a'', JNum (Fin 1))]])
     (JObj [(''a'', JNum (Fin 1))]) None
   = Some [[(''a'', JNull)], [(''a'', JNum (Fin 1))], [(''a'', JNum (Fin 2))]]
   \<and> sortStage (Some [[(''a'', JNum (Fin 2))], [(''a'', JNull)], [(''a'', JNum (Fin 1))]])
     (JObj [(''a'', JNum (Fin 1))]) None
   \<noteq> Some [[(''a'', JNum (Fin 1))], [(''a'', JNum (Fin 2))], [(''a'', JNull)]]"
  by code_simp

subsection \<open>Strings that look like dates\<close>

text \<open>
  Claim C5. Let the two operands not both be dates, so that the comparator goes on to turn
  a single date into its ISO string and everything but a number into a string. When that
  leaves two strings that both match the ISO date pattern, the comparator parses both as
  dates and hands back their time values in milliseconds, and \<open>=\<close> compares these two
  numbers. In particular a string and a date give, when both the string and the ISO string
  of the date match the pattern, the time values of the two; and the string
  \<open>2020-01-01T00:00:00.000Z\<close> equals the date made from \<open>2020-01-01\<close>.
\<close>

theorem iso_strings_compared_as_dates:
  assumes "lowered a b = (a2, b2)"
    and "\<not> (isDate a2 \<and> isDate b2)"
    and "stringified a2 b2 = Inr (JStr s, JStr t)"
    and "X_ISO_DATE s" and "X_ISO_DATE t"
  shows "normalizeComparison a b
           = Inr (JNum (getTime (date_parse s)), JNum (getTime (date_parse t)))
       \<and> compare_eq a b = Inr (num_eq (getTime (date_parse s)) (getTime (date_parse t)))
       \<and> normalizeComparison (JStr s) (JDate (Some ms))
           = Inr (if X_ISO_DATE (iso_string ms)
                  then (JNum (getTime (date_parse s)), JNum (getTime (date_parse (iso_string ms))))
                  else (JStr s, JStr (iso_string ms)))
       \<and> compare_eq (JStr ''2020-01-01T00:00:00.000Z'') (JDate (newDate (JStr ''2020-01-01'')))
           = Inr True"
proof -
  have n: "normalizeComparison a b
           = Inr (JNum (getTime (date_parse s)), JNum (getTime (date_parse t)))"
    using assms
    by (auto simp: normalizeComparison_def date_like_def isDate_def split: jsval.splits)
  have lone: "normalizeComparison (JStr s) (JDate (Some ms))
           = Inr (if X_ISO_DATE (iso_string ms)
                  then (JNum (getTime (date_parse s)), JNum (getTime (date_parse (iso_string ms))))
                  else (JStr s, JStr (iso_string ms)))"
    using \<open>X_ISO_DATE s\<close>
    by (simp add: normalizeComparison_def lowered_def nullish_to_empty_def stringified_def
        date_to_iso_def toISOString_def stringify_operand_def isNumber_def date_like_def)
  have ex: "compare_eq (JStr ''2020-01-01T00:00:00.000Z'') (JDate (newDate (JStr ''2020-01-01'')))
           = Inr True"
    by code_simp
  show ?thesis
    using n lone ex by (simp add: compare_eq_def)
qed

theorem iso_strings_compared_as_dates_witness:
  "lowered (JStr ''2020-01-01T00:00:00.000Z'') (JDate (Some 1577836800000))
     = (JStr ''2020-01-01T00:00:00.000Z'', JDate (Some 1577836800000))
   \<and> stringified (JStr ''2020-01-01T00:00:00.000Z'') (JDate (Some 1577836800000))
     = Inr (JStr ''2020-01-01T00:00:00.000Z'', JStr ''2020-01-01T00:00:00.000Z'')
   \<and> X_ISO_DATE ''2020-01-01T00:00:00.000Z''
   \<and> date_parse ''2020-01-01T00:00:00.000Z'' = Some 1577836800000
   \<and> normalizeComparison (JStr ''2020-01-01T00:00:00.000Z'') (JDate (Some 1577836800000))
     = Inr (JNum (Fin 1577836800000), JNum (Fin 1577836800000))
   \<and> compare_eq (JStr ''2020-01-01T00:00:00.000Z'') (JDate (Some 1577836800000)) = Inr True"
proof -
  have l: "lowered (JStr ''2020-01-01T00:00:00.000Z'') (JDate (Some 1577836800000))
     = (JStr ''2020-01-01T00:00:00.000Z'', JDate (Some 1577836800000))"
    by (simp add: lowered_def nullish_to_empty_def)
  have d: "\<not> (isDate (JStr ''2020-01-01T00:00:00.000Z'') \<and> isDate (JDate (Some 1577836800000)))"
    by (simp add: isDate_def)
  have s: "stringified (JStr ''2020-01-01T00:00:00.000Z'') (JDate (Some 1577836800000))
     = Inr (JStr ''2020-01-01T00:00:00.000Z'', JStr ''2020-01-01T00:00:00.000Z'')"
    by code_simp
  have x: "X_ISO_DATE ''2020-01-01T00:00:00.000Z''"
    by code_simp
  have p: "date_parse ''2020-01-01T00:00:00.000Z'' = Some 1577836800000"
    by code_simp
  have n: "normalizeComparison (JStr ''2020-01-01T00:00:00.000Z'') (JDate (Some 1577836800000))
     = Inr (JNum (Fin 1577836800000), JNum (Fin 1577836800000))"
    using iso_strings_compared_as_dates [OF l d s x x, THEN conjunct1] p
    by (simp add: getTime_def)
  have c: "compare_eq (JStr ''2020-01-01T00:00:00.000Z'') (JDate (Some 1577836800000)) = Inr True"
    using iso_strings_compared_as_dates [OF l d s x x, THEN conjunct2, THEN conjunct1] p
    by (simp add: getTime_def)
  show ?thesis
    using l s x p n c by simp
qed

subsection \<open>The IN filter on an absent attribute\<close>

lemma X_ISO_DATE_empty: "\<not> X_ISO_DATE []"
  by (simp add: X_ISO_DATE_def)

text \<open>Against \<open>undefined\<close> the comparator compares the empty string; only the invalid date
  on the other side makes it fail.\<close>

lemma normalizeComparison_undefined:
  "v \<noteq> JDate None \<Longrightarrow> \<exists>y. normalizeComparison JUndefined v = Inr (JStr [], y)"
  by (cases v)
    (auto simp: normalizeComparison_def lowered_def nullish_to_empty_def stringified_def
      date_to_iso_def toISOString_def stringify_operand_def isNumber_def date_like_def
      X_ISO_DATE_empty toLowerCase_def)

lemma normalizeComparison_undefined_invalid:
  "normalizeComparison JUndefined (JDate None) = Inl RangeError"
  by (simp add: normalizeComparison_def lowered_def nullish_to_empty_def stringified_def
      date_to_iso_def toISOString_def)

lemma compare_eq_undefined_total:
  "v \<noteq> JDate None \<Longrightarrow> \<exists>b. compare_eq JUndefined v = Inr b"
  using normalizeComparison_undefined [of v] by (auto simp: compare_eq_def)

lemma someEqual_undefined:
  "\<forall>v \<in> set L. v \<noteq> JDate None \<Longrightarrow>
   someEqual JUndefined L = Inr (\<exists>v \<in> set L. compare_eq JUndefined v = Inr True)"
proof (induction L)
  case Nil
  then show ?case by simp
next
  case (Cons v L)
  then obtain b where b: "compare_eq JUndefined v = Inr b"
    using compare_eq_undefined_total [of v] by auto
  with Cons show ?case by auto
qed

lemma compare_eq_undefined_null: "compare_eq JUndefined JNull = Inr True"
  by code_simp

lemma compare_eq_undefined_empty: "compare_eq JUndefined (JStr []) = Inr True"
  by code_simp

text \<open>The method \<open>hasOwnProperty\<close> of a tuple that has no entry of that name is the
  inherited one.\<close>

lemma callHasOwnProperty_plain:
  "\<not> hasOwn d ''hasOwnProperty'' \<Longrightarrow> callHasOwnProperty d k = Inr (hasOwn d k)"
  by (simp add: callHasOwnProperty_def get_prop_def hasOwn_def inherited_def prototypeMethods_def)

lemma callHasOwnProperty_error: "callHasOwnProperty d k = Inl e \<Longrightarrow> e = TypeError"
  by (auto simp: callHasOwnProperty_def split: jsval.splits if_splits)

text \<open>
  Claim C9, as the code has it. Let \<open>t[k]\<close> be \<open>undefined\<close>: the tuple \<open>t\<close> has no attribute
  \<open>k\<close>, and \<open>k\<close> is not a name that every object inherits (\<open>toString\<close>, \<open>constructor\<close>,
  ...); let \<open>k\<close> not be the name of a combinator either. The IN filter \<open>{k: L}\<close> then
  compares \<open>undefined\<close> with the elements of \<open>L\<close> in turn, without asking whether the
  attribute is there, whereas the literal filter on the same attribute is false at once
  (for a tuple with no entry \<open>hasOwnProperty\<close>). The comparator turns \<open>undefined\<close> into the
  empty string, so that (no element of \<open>L\<close> being an invalid date, on which the comparator
  fails) the filter is true exactly when some element of \<open>L\<close> normalizes to a value equal
  to the empty string; \<open>null\<close> and the empty string are such elements.
\<close>

theorem in_filter_absent_attribute:
  assumes "\<not> hasOwn t k" and "inherited k = JUndefined"
    and "toLowerCase k \<noteq> ''or''" and "toLowerCase k \<noteq> ''not''"
    and "toLowerCase k \<noteq> ''and''" and "toLowerCase k \<noteq> ''like''"
    and "\<forall>v \<in> set L. v \<noteq> JDate None"
  shows "matchSet t (JObj [(k, JArr L)]) None schema = someEqual JUndefined L
       \<and> matchSet t (JObj [(k, JArr L)]) None schema
           = Inr (\<exists>v \<in> set L. \<exists>y. normalizeComparison JUndefined v = Inr (JStr [], y)
                                    \<and> loose_eq (JStr []) y)
       \<and> (JNull \<in> set L \<or> JStr [] \<in> set L
             \<longrightarrow> matchSet t (JObj [(k, JArr L)]) None schema = Inr True)
       \<and> (\<not> hasOwn t ''hasOwnProperty''
             \<longrightarrow> matchLiteral t k c compare_eq [] = Inr False)"
proof -
  have u: "get_prop t k = JUndefined"
    using assms(1,2) by (simp add: hasOwn_def get_prop_def)
  have s: "matchSet t (JObj [(k, JArr L)]) None schema = someEqual JUndefined L"
    using assms(3-6) u
    by (simp add: matchSet.simps matchItem.simps isArrayLike_def get_prop_def given_def
        split: sum.splits)
  have e: "someEqual JUndefined L = Inr (\<exists>v \<in> set L. compare_eq JUndefined v = Inr True)"
    using assms(7) by (rule someEqual_undefined)
  have c: "(compare_eq JUndefined v = Inr True)
         = (\<exists>y. normalizeComparison JUndefined v = Inr (JStr [], y) \<and> loose_eq (JStr []) y)"
    if "v \<in> set L" for v
  proof -
    from that assms(7) have "v \<noteq> JDate None" by blast
    then obtain y where "normalizeComparison JUndefined v = Inr (JStr [], y)"
      using normalizeComparison_undefined by blast
    then show ?thesis by (simp add: compare_eq_def)
  qed
  have r: "matchSet t (JObj [(k, JArr L)]) None schema
           = Inr (\<exists>v \<in> set L. \<exists>y. normalizeComparison JUndefined v = Inr (JStr [], y)
                                    \<and> loose_eq (JStr []) y)"
    using c by (simp add: s e cong: bex_cong)
  have n: "matchSet t (JObj [(k, JArr L)]) None schema = Inr True"
    if "JNull \<in> set L \<or> JStr [] \<in> set L"
    using that compare_eq_undefined_null compare_eq_undefined_empty
    by (auto simp: s e)
  have l: "matchLiteral t k c compare_eq [] = Inr False" if "\<not> hasOwn t ''hasOwnProperty''"
    using assms(1) that
    by (simp add: matchLiteral_def schemaDates_def get_prop_def inherited_def
        callHasOwnProperty_plain split: prod.splits)
  show ?thesis
    using s r n l by blast
qed

theorem in_filter_absent_attribute_witness:
  "inherited ''age'' = JUndefined
   \<and> toLowerCase ''age'' \<noteq> ''or'' \<and> toLowerCase ''age'' \<noteq> ''not''
   \<and> toLowerCase ''age'' \<noteq> ''and'' \<and> toLowerCase ''age'' \<noteq> ''like''
   \<and> matchSet [(''name'', JStr ''kermit'')] (JObj [(''age'', JArr [JNum (Fin 3), JNull])]) None []
       = Inr True
   \<and> matchLiteral [(''name'', JStr ''kermit'')] ''age'' JNull compare_eq [] = Inr False"
proof -
  have a: "\<not> hasOwn [(''name'', JStr ''kermit'')] ''age''"
    by (simp add: hasOwn_def)
  have i: "inherited ''age'' = JUndefined"
    by (simp add: inherited_def prototypeMethods_def)
  have k: "toLowerCase ''age'' \<noteq> ''or''" "toLowerCase ''age'' \<noteq> ''not''"
    "toLowerCase ''age'' \<noteq> ''and''" "toLowerCase ''age'' \<noteq> ''like''"
    by (simp_all add: toLowerCase_def toLowerChar_def upper_letters_def lower_letters_def)
  have d: "\<forall>v \<in> set [JNum (Fin 3), JNull]. v \<noteq> JDate None"
    by simp
  have m: "JNull \<in> set [JNum (Fin 3), JNull] \<or> JStr [] \<in> set [JNum (Fin 3), JNull]"
    by simp
  have h: "\<not> hasOwn [(''name'', JStr ''kermit'')] ''hasOwnProperty''"
    by (simp add: hasOwn_def)
  note th = in_filter_absent_attribute [OF a i k d, of "[]" JNull]
  have "matchSet [(''name'', JStr ''kermit'')] (JObj [(''age'', JArr [JNum (Fin 3), JNull])]) None []
       = Inr True"
    using th [THEN conjunct2, THEN conjunct2, THEN conjunct1] m by blast
  moreover have "matchLiteral [(''name'', JStr ''kermit'')] ''age'' JNull compare_eq [] = Inr False"
    using th [THEN conjunct2, THEN conjunct2, THEN conjunct2] h by blast
  ultimately show ?thesis
    using i k by simp
qed

text \<open>
  The claim as stated, for every attribute that the tuple does not own, fails for a name
  that the tuple inherits: \<open>{name: 'kermit'}\<close> does not own \<open>toString\<close> and \<open>null\<close> equals
  the absent value, yet the filter \<open>{toString: [null]}\<close> is false, because it compares the
  inherited method and not \<open>undefined\<close>.
\<close>

theorem in_filter_inherited_counterexample:
  "\<not> hasOwn [(''name'', JStr ''kermit'')] ''toString''
   \<and> compare_eq JUndefined JNull = Inr True
   \<and> get_prop [(''name'', JStr ''kermit'')] ''toString'' = JFun ''toString''
   \<and> matchSet [(''name'', JStr ''kermit'')] (JObj [(''toString'', JArr [JNull])]) None []
       = Inr False"
  by code_simp

subsection \<open>The literal match on absent data\<close>

text \<open>
  Without the type \<open>date\<close> in the schema, and for a tuple with no entry
  \<open>hasOwnProperty\<close>, the literal match is false, and raises nothing, when the attribute is
  absent or the criterion is \<open>undefined\<close>, whatever the match function.
\<close>

lemma matchLiteral_soft:
  assumes "js_get (get_prop schema key) ''type'' \<noteq> JStr ''date''"
    and "\<not> hasOwn model ''hasOwnProperty''"
    and "\<not> hasOwn model key \<or> criterion = JUndefined"
  shows "matchLiteral model key criterion matchFn schema = Inr False"
proof -
  have s: "schemaDates schema key v criterion = Inr (v, criterion)" for v
    using assms(1) by (simp add: schemaDates_def)
  have u: "\<not> isNumbery JUndefined"
    by (simp add: isNumbery_def isDate_def)
  show ?thesis
    using assms(3) u
    by (auto simp: matchLiteral_def s castNumbers_def callHasOwnProperty_plain [OF assms(2)])
qed

text \<open>
  Claim C6, where the code departs from it. The schema step comes before the two checks:
  with the type \<open>date\<close> in the schema, \<open>new Date(undefined).toISOString()\<close> raises a
  \<open>RangeError\<close> for an absent attribute and for an \<open>undefined\<close> criterion, in
  \<open>matchLiteral\<close> and so in the filter stage.
\<close>

theorem matchLiteral_absent_date_raises:
  "matchLiteral [(''name'', JStr ''kermit'')] ''createdAt'' (JStr ''2020-01-01'') compare_eq
     [(''createdAt'', JObj [(''type'', JStr ''date'')])] = Inl RangeError
   \<and> matchLiteral [(''createdAt'', JStr ''2020-01-01'')] ''createdAt'' JUndefined compare_eq
     [(''createdAt'', JObj [(''type'', JStr ''date'')])] = Inl RangeError
   \<and> whereFilter (Some [[(''name'', JStr ''kermit'')]]) (JObj [(''createdAt'', JStr ''2020-01-01'')])
     [(''createdAt'', JObj [(''type'', JStr ''date'')])] = Inl RangeError
   \<and> matchLiteral [(''name'', JStr ''kermit'')] ''createdAt'' (JStr ''2020-01-01'') compare_eq []
     = Inr False"
  by code_simp

subsection \<open>The cast to numbers in the literal match\<close>

text \<open>What \<open>isNumbery\<close> decides: the value is no date, and the square of its number is
  above zero. An infinity passes; zero and \<open>NaN\<close> do not.\<close>

lemma round_double_zero [simp]: "round_double 0 = Fin 0"
  by (simp add: round_double_def)

lemma isNumbery_iff:
  "isNumbery v =
     (\<not> isDate v
      \<and> (toNumber v = PosInf \<or> toNumber v = NegInf
         \<or> (\<exists>q. toNumber v = Fin q \<and> num_lt (Fin 0) (round_double (q * q)))))"
  by (cases "toNumber v") (auto simp: isNumbery_def)

lemma isNumbery_zero:
  "toNumber v = Fin 0 \<or> toNumber v = NaN \<Longrightarrow> \<not> isNumbery v"
  by (auto simp: isNumbery_def)

text \<open>
  Claim C2, where the code departs from it. The strings \<open>0\<close> and \<open>00\<close> both parse as the
  finite number zero, and yet they are not cast: \<open>isNumbery\<close> tests that the square of the
  number is above zero, which zero fails. So \<open>{a: "0"}\<close> does not match the criterion
  \<open>"00"\<close>, whereas \<open>{a: "1"}\<close> matches \<open>"01"\<close> and \<open>{a: 3}\<close> matches \<open>"3"\<close>. The same test lets
  \<open>Infinity\<close> through, which is not finite.
\<close>

theorem matchLiteral_zero_not_cast:
  "toNumber (JStr ''0'') = Fin 0 \<and> toNumber (JStr ''00'') = Fin 0
   \<and> castNumbers (JStr ''0'') (JStr ''00'') = (JStr ''0'', JStr ''00'')
   \<and> matchLiteral [(''a'', JStr ''0'')] ''a'' (JStr ''00'') compare_eq [] = Inr False
   \<and> castNumbers (JStr ''1'') (JStr ''01'') = (JNum (Fin 1), JNum (Fin 1))
   \<and> matchLiteral [(''a'', JStr ''1'')] ''a'' (JStr ''01'') compare_eq [] = Inr True
   \<and> matchLiteral [(''a'', JNum (Fin 3))] ''a'' (JStr ''3'') compare_eq [] = Inr True
   \<and> castNumbers (JStr ''Infinity'') (JNum PosInf) = (JNum PosInf, JNum PosInf)"
  by code_simp

subsection \<open>The pattern of the LIKE match\<close>

text \<open>What a character of the pattern becomes: the percent sign a wildcard, any other
  character itself.\<close>

lemma rx_body_literal:
  assumes "c \<noteq> CHR ''%''" and "c \<notin> set regex_specials" and "rest \<noteq> []"
  shows "rx_body (c # rest) = map_option ((#) (Lit c)) (rx_body rest)"
proof -
  from assms(3) obtain d cs where r: "rest = d # cs" by (cases rest) auto
  have "c \<noteq> CHR 0x5C" "c \<noteq> CHR ''.''"
    using assms(2) by (auto simp: regex_specials_def)
  then show ?thesis
    using assms(2) by (simp add: r)
qed

lemma rx_body_like:
  "rx_body (percent_to_wildcard (escapeRegExp q) @ ''$'')
     = Some (map (\<lambda>c. if c = CHR ''%'' then AnyStar else Lit c) q)"
proof (induction q)
  case Nil
  then show ?case by simp
next
  case (Cons c q)
  let ?rest = "percent_to_wildcard (escapeRegExp q) @ ''$''"
  consider "c = CHR ''%''" | "c \<in> set regex_specials" | "c \<noteq> CHR ''%''" "c \<notin> set regex_specials"
    by blast
  then show ?case
  proof cases
    case 1
    then have "c \<notin> set regex_specials" by (simp add: regex_specials_def)
    with 1 Cons show ?thesis by simp
  next
    case 2
    then have "c \<noteq> CHR ''%''" by (auto simp: regex_specials_def)
    with 2 Cons show ?thesis by simp
  next
    case 3
    have "rx_body (c # ?rest) = map_option ((#) (Lit c)) (rx_body ?rest)"
      using 3 by (intro rx_body_literal) simp_all
    with 3 Cons show ?thesis by simp
  qed
qed

text \<open>
  The regular expression that the matcher builds from a pattern: the characters of the
  pattern after \<open>%%%\<close> has been turned into \<open>%\<close>, each a literal, but every percent sign
  a wildcard. The percent sign that \<open>%%%\<close> leaves behind is one of them.
\<close>

lemma rx_parse_like_source:
  "rx_parse (like_source p)
     = Some (map (\<lambda>c. if c = CHR ''%'' then AnyStar else Lit c) (unescape_percent p))"
  by (simp add: rx_parse_def like_source_def rx_body_like)

text \<open>
  Claim C3, where the code departs from it. The matcher does escape the special characters,
  turn a percent sign into \<open>.*\<close>, anchor the expression and ignore case, and \<open>hello%\<close> and
  \<open>%world\<close> match \<open>hello world\<close>. But \<open>%%%\<close> is first replaced by one percent sign and that
  sign then becomes a wildcard like any other: the pattern \<open>a%%%b%c\<close> gives the expression
  \<open>^a.*b.*c$\<close>, which matches \<open>abc\<close> and \<open>aXYbc\<close>, strings without any percent sign.
\<close>

theorem like_escaped_percent_is_wildcard:
  "like_source ''a%%%b%c'' = ''^a.*b.*c$''
   \<and> rx_parse (like_source ''a%%%b%c'')
       = Some [Lit (CHR ''a''), AnyStar, Lit (CHR ''b''), AnyStar, Lit (CHR ''c'')]
   \<and> sqlLikeMatch (JStr ''abc'') (JStr ''a%%%b%c'') = Inr True
   \<and> sqlLikeMatch (JStr ''aXYbc'') (JStr ''a%%%b%c'') = Inr True
   \<and> sqlLikeMatch (JStr ''a%bc'') (JStr ''a%%%b%c'') = Inr True
   \<and> sqlLikeMatch (JStr ''hello world'') (JStr ''hello%'') = Inr True
   \<and> sqlLikeMatch (JStr ''hello world'') (JStr ''%world'') = Inr True
   \<and> sqlLikeMatch (JStr ''Hello World'') (JStr ''hello w.rld'') = Inr False"
  by code_simp

subsection \<open>Unknown modifiers of an attribute\<close>

lemma matchModifier_unknown:
  "key \<notin> set modifierKeys \<Longrightarrow> matchModifier model key criterion parentKey schema = Inl InvalidQuerySyntax"
  by (simp add: matchModifier_def modifierKeys_def)

text \<open>The loop passes over the entries that match.\<close>

lemma matchEvery_prefix:
  "\<forall>e \<in> set pre. matchItem t (fst e) (snd e) parentKey schema = Inr True \<Longrightarrow>
   matchEvery t (JObj (pre @ rest)) parentKey schema = matchEvery t (JObj rest) parentKey schema"
  by (induction pre) auto

text \<open>The comparator raises nothing but a \<open>RangeError\<close>, and the literal match with \<open>=\<close>
  never the error of invalid query syntax.\<close>

lemma normalizeComparison_error:
  "normalizeComparison a b = Inl e \<Longrightarrow> e = RangeError"
  by (auto simp: normalizeComparison_def stringified_def date_to_iso_def toISOString_def
      split: prod.splits jsval.splits sum.splits option.splits)

lemma compare_eq_error: "compare_eq a b = Inl e \<Longrightarrow> e = RangeError"
  by (auto simp: compare_eq_def dest: normalizeComparison_error split: sum.splits prod.splits)

lemma matchLiteral_eq_error:
  "matchLiteral t k c compare_eq schema = Inl e \<Longrightarrow> e \<noteq> InvalidQuerySyntax"
  by (auto simp: matchLiteral_def schemaDates_def toISOString_def
      dest: compare_eq_error callHasOwnProperty_error
      split: sum.splits prod.splits if_splits option.splits)

text \<open>
  Claim C7, as the code has it. In the mode of an attribute, entered under an attribute
  name that is not empty, the entries of the mapping are evaluated in their order, and the
  evaluation ends at the first entry that does not match. A key that \<open>matchItem\<close> does not
  know as a modifier (it knows the fixed keys and also \<open>=\<close> and \<open>equal\<close>) raises the error
  of invalid query syntax when the evaluation reaches it, that is when all the entries
  before it match; the mapping is taken to have no numeric entry \<open>length\<close>. A mapping
  without any of the fixed keys, under an attribute name that is no combinator, is not
  evaluated in that mode: it is the criterion of a literal match, which never raises that
  error.
\<close>

theorem unknown_modifier_raises:
  assumes "parent \<noteq> []"
    and "\<not> isArrayLike (pre @ (key, v) # post)"
    and "key \<notin> set modifierKeys"
    and "\<forall>e \<in> set pre. matchItem t (fst e) (snd e) (Some parent) schema = Inr True"
    and "toLowerCase k \<noteq> ''or''" and "toLowerCase k \<noteq> ''not''"
    and "toLowerCase k \<noteq> ''and''" and "toLowerCase k \<noteq> ''like''"
    and "\<not> validSubAttrCriteria (JObj m)"
  shows "matchSet t (JObj (pre @ (key, v) # post)) (Some parent) schema = Inl InvalidQuerySyntax
       \<and> matchItem t k (JObj m) None schema = matchLiteral t k (JObj m) compare_eq schema
       \<and> matchItem t k (JObj m) None schema \<noteq> Inl InvalidQuerySyntax"
proof -
  have "matchSet t (JObj (pre @ (key, v) # post)) (Some parent) schema
          = matchEvery t (JObj (pre @ (key, v) # post)) (Some parent) schema"
    using assms(2) by (simp add: matchSet.simps)
  also have "\<dots> = matchEvery t (JObj ((key, v) # post)) (Some parent) schema"
    using assms(4) by (rule matchEvery_prefix)
  also have "\<dots> = Inl InvalidQuerySyntax"
    using assms(1,3) by (simp add: matchItem.simps given_def matchModifier_unknown)
  finally have a: "matchSet t (JObj (pre @ (key, v) # post)) (Some parent) schema
                     = Inl InvalidQuerySyntax" .
  have b: "matchItem t k (JObj m) None schema = matchLiteral t k (JObj m) compare_eq schema"
    using assms(5-9) by (simp add: matchItem.simps given_def)
  have "matchLiteral t k (JObj m) compare_eq schema \<noteq> Inl InvalidQuerySyntax"
    using matchLiteral_eq_error by fastforce
  with a b show ?thesis by simp
qed

theorem unknown_modifier_raises_witness:
  "''age'' \<noteq> [] \<and> ''bogus'' \<notin> set modifierKeys
   \<and> matchItem [(''age'', JNum (Fin 40))] ''>='' (JNum (Fin 30)) (Some ''age'') [] = Inr True
   \<and> matchSet [(''age'', JNum (Fin 40))] (JObj [(''>='', JNum (Fin 30)), (''bogus'', JNull)])
       (Some ''age'') [] = Inl InvalidQuerySyntax
   \<and> matchItem [(''age'', JNum (Fin 40))] ''age'' (JObj [(''bogus'', JNull)]) None [] = Inr False"
proof -
  have p: "''age'' \<noteq> []" by simp
  have l: "\<not> isArrayLike ([(''>='', JNum (Fin 30))] @ (''bogus'', JNull) # [])"
    by (simp add: isArrayLike_def get_prop_def inherited_def prototypeMethods_def)
  have u: "''bogus'' \<notin> set modifierKeys"
    by (simp add: modifierKeys_def)
  have i: "matchItem [(''age'', JNum (Fin 40))] ''>='' (JNum (Fin 30)) (Some ''age'') [] = Inr True"
    by code_simp
  have e: "\<forall>e \<in> set [(''>='', JNum (Fin 30))].
             matchItem [(''age'', JNum (Fin 40))] (fst e) (snd e) (Some ''age'') [] = Inr True"
    using i by simp
  have k: "toLowerCase ''age'' \<noteq> ''or''" "toLowerCase ''age'' \<noteq> ''not''"
    "toLowerCase ''age'' \<noteq> ''and''" "toLowerCase ''age'' \<noteq> ''like''"
    by (simp_all add: toLowerCase_def toLowerChar_def upper_letters_def lower_letters_def)
  have n: "\<not> validSubAttrCriteria (JObj [(''bogus'', JNull)])"
    by (simp add: validSubAttrCriteria_def validAttributes_def hasOwn_def)
  have f: "matchLiteral [(''age'', JNum (Fin 40))] ''age'' (JObj [(''bogus'', JNull)]) compare_eq []
             = Inr False"
    by code_simp
  note th = unknown_modifier_raises [OF p l u e k n]
  have "matchSet [(''age'', JNum (Fin 40))] (JObj [(''>='', JNum (Fin 30)), (''bogus'', JNull)])
       (Some ''age'') [] = Inl InvalidQuerySyntax"
    using th [THEN conjunct1] by simp
  moreover have "matchItem [(''age'', JNum (Fin 40))] ''age'' (JObj [(''bogus'', JNull)]) None []
       = Inr False"
    using th [THEN conjunct2, THEN conjunct1] f by simp
  ultimately show ?thesis
    using p u i by simp
qed

text \<open>
  The claim as the spec states it fails twice. The key \<open>equal\<close> is none of the fixed keys
  and raises nothing; and the unknown key \<open>bogus\<close> raises nothing when an entry before it
  does not match, because the evaluation never reaches it.
\<close>

theorem unknown_modifier_counterexample:
  "''equal'' \<notin> set validAttributes
   \<and> validSubAttrCriteria (JObj [(''>'', JNum (Fin 1)), (''equal'', JNum (Fin 25))])
   \<and> matchSet [(''age'', JNum (Fin 25))]
       (JObj [(''age'', JObj [(''>'', JNum (Fin 1)), (''equal'', JNum (Fin 25))])]) None []
     = Inr True
   \<and> ''bogus'' \<notin> set validAttributes
   \<and> matchSet [(''age'', JNum (Fin 20))]
       (JObj [(''age'', JObj [(''>'', JNum (Fin 30)), (''bogus'', JNum (Fin 1))])]) None []
     = Inr False"
  by code_simp

subsection \<open>The projection stage and the caller's spec\<close>

text \<open>
  Claim C8, where the code departs from it. The filter, sort and pagination stages build
  their result from copies and leave their arguments alone, but the projection stage
  deletes the key \<open>*\<close> from the dictionary that the caller passed. After
  \<open>select([{a:1,b:2}], {'*': true, b: false})\<close>, which gives \<open>[{a:1}]\<close>, the caller's spec
  is \<open>{b: false}\<close>, and the same call with that same object now gives \<open>[{b:2}]\<close>. The nested
  call does the same to a nested spec, in the middle of the loop over the tuples: with
  the spec \<open>{pet: {'*': true, a: false}}\<close> the first of two equal tuples keeps \<open>b\<close> of its
  pet and the second keeps \<open>a\<close>.
\<close>

theorem select_changes_spec:
  "select 1 [JObj [(''a'', JNum (Fin 1)), (''b'', JNum (Fin 2))]]
     (JObj [(''*'', JBool True), (''b'', JBool False)])
   = Some (Inr ([JObj [(''a'', JNum (Fin 1))]], JObj [(''b'', JBool False)]))
   \<and> select 1 [JObj [(''a'', JNum (Fin 1)), (''b'', JNum (Fin 2))]]
     (JObj [(''b'', JBool False)])
   = Some (Inr ([JObj [(''b'', JNum (Fin 2))]], JObj [(''b'', JBool False)]))
   \<and> select 2
     [JObj [(''pet'', JObj [(''a'', JNum (Fin 1)), (''b'', JNum (Fin 2))])],
      JObj [(''pet'', JObj [(''a'', JNum (Fin 1)), (''b'', JNum (Fin 2))])]]
     (JObj [(''pet'', JObj [(''*'', JBool True), (''a'', JBool False)])])
   = Some (Inr ([JObj [(''pet'', JObj [(''b'', JNum (Fin 2))])],
                 JObj [(''pet'', JObj [(''a'', JNum (Fin 1))])]],
                JObj [(''pet'', JObj [(''a'', JBool False)])]))"
  by code_simp

end
